theory Spec2Isabelle
  imports Main
begin

section \<open>Strings and dictionaries of the Python source\<close>

text \<open>
  A Python \<open>str\<close> is modelled as a \<^typ>\<open>string\<close> whose characters are the code points
  below 256. \<open>str.lower\<close> changes exactly the capital letters of that range
  (\<open>A\<close> to \<open>Z\<close>, and \<open>0xC0\<close> to \<open>0xDE\<close> without the multiplication sign \<open>0xD7\<close>),
  each to the code point 32 above it.
\<close>

definition lower_char :: "char \<Rightarrow> char" where
  "lower_char c =
     (let n = (of_char c :: nat)
      in if (65 \<le> n \<and> n \<le> 90) \<or> (192 \<le> n \<and> n \<le> 222 \<and> n \<noteq> 215)
         then char_of (n + 32) else c)"

definition lower :: "string \<Rightarrow> string" where
  "lower s = map lower_char s"

text \<open>\<open>s.replace(' ', '_')\<close>: every space becomes an underscore.\<close>

definition replace_space :: "string \<Rightarrow> string" where
  "replace_space s = map (\<lambda>c. if c = CHR '' '' then CHR ''_'' else c) s"

text \<open>\<open>str(i)\<close> for the non-negative index that \<open>enumerate\<close> yields: decimal digits.\<close>

definition digit_char :: "nat \<Rightarrow> char" where
  "digit_char d = ''0123456789'' ! d"

fun str_nat :: "nat \<Rightarrow> string" where
  "str_nat n =
     (if n < 10 then [digit_char n]
      else str_nat (n div 10) @ [digit_char (n mod 10)])"

declare str_nat.simps [simp del]

text \<open>\<open>sep.join(xs)\<close>.\<close>

fun join :: "string \<Rightarrow> string list \<Rightarrow> string" where
  "join sep [] = []"
| "join sep [x] = x"
| "join sep (x # y # ys) = x @ sep @ join sep (y # ys)"

text \<open>
  Exceptions are values. \<open>KeyError k\<close> is the failure of \<open>d[k]\<close> on a dictionary without
  the key \<open>k\<close>; \<open>OSError\<close> and \<open>OtherError\<close> are what a call into the operating system or
  a library may raise; \<open>KeyboardInterrupt\<close> and \<open>SystemExit\<close> are not subclasses of
  \<open>Exception\<close>.
\<close>

datatype exn =
    KeyError string
  | OSError string
  | CalledProcessError int
  | OtherError string
  | KeyboardInterrupt
  | SystemExit int

section \<open>The image-workflow builder (\<open>nano_banana_integration.py\<close>)\<close>

subsection \<open>Data\<close>

text \<open>
  A workflow (and a workflow template, which has the same shape) is a dictionary with the
  keys \<open>name\<close>, \<open>nodes\<close> and \<open>edges\<close>. A node has \<open>type\<close>, \<open>id\<close>, \<open>prompt\<close>,
  \<open>position\<close> (\<open>x\<close> and \<open>y\<close>) and, in a built workflow only, \<open>data\<close>: a dictionary of
  strings, kept as an association list in insertion order.
\<close>

record node =
  node_type :: string
  node_id :: string
  node_prompt :: string
  node_position :: "int \<times> int"
  node_data :: "(string \<times> string) list option"

record edge =
  edge_source :: string
  edge_target :: string

record workflow =
  wf_name :: string
  wf_nodes :: "node list"
  wf_edges :: "edge list"

text \<open>
  The analysis dictionary handed to the builder. A key may be missing from a Python
  dictionary, so every field is optional: \<open>None\<close> is the absent key.
\<close>

record concept =
  c_name :: "string option"
  c_description :: "string option"
  c_image_prompt :: "string option"
  c_annotations :: "string list option"

record analysis =
  a_topic :: "string option"
  a_subject :: "string option"
  a_level :: "string option"
  a_concepts :: "concept list option"
  a_workflow_steps :: "string list option"
  a_animation_frames :: "int option"
  a_estimated_duration :: "int option"

text \<open>The attributes of a \<open>NanoBananaVideoEduPlatform\<close> object.\<close>

record agent =
  agent_name :: string
  agent_instructions :: string
  agent_tools :: "string list"

record platform =
  content_analyzer :: agent
  workflow_designer :: agent
  nano_banana_url :: string
  workflow_templates :: "(string \<times> workflow) list"

subsection \<open>Construction of the platform object\<close>

definition content_analyzer_agent :: agent where
  "content_analyzer_agent =
     \<lparr>agent_name = ''Content Analyzer'',
      agent_instructions =
        ''\<newline>'' @
        ''            You are an expert educational content analyzer. Your job is to:\<newline>'' @
        ''            1. Break down any educational topic into key visual concepts\<newline>'' @
        ''            2. Identify what images, animations, and scenes would best demonstrate the concept\<newline>'' @
        ''            3. Create a detailed storyboard with visual elements and workflow steps\<newline>'' @
        ''            4. Suggest appropriate image generation prompts for each concept\<newline>'' @
        ''            \<newline>'' @
        ''            Always think in terms of visual storytelling and educational effectiveness.\<newline>'' @
        ''            Return structured JSON with workflow steps.\<newline>'' @
        ''            '',
      agent_tools = []\<rparr>"

definition workflow_designer_agent :: agent where
  "workflow_designer_agent =
     \<lparr>agent_name = ''Workflow Designer'',
      agent_instructions =
        ''\<newline>'' @
        ''            You are a visual workflow design expert. Your job is to:\<newline>'' @
        ''            1. Convert educational concepts into Nano Banana workflow nodes\<newline>'' @
        ''            2. Design image generation prompts for each concept\<newline>'' @
        ''            3. Create image editing instructions for educational content\<newline>'' @
        ''            4. Plan the sequence of visual elements for maximum learning impact\<newline>'' @
        ''            \<newline>'' @
        ''            Generate complete Nano Banana workflow configurations.\<newline>'' @
        ''            '',
      agent_tools = []\<rparr>"

definition load_workflow_templates :: "(string \<times> workflow) list" where
  "load_workflow_templates =
     [(''physics'',
       \<lparr>wf_name = ''Physics Visualization Workflow'',
        wf_nodes =
         [\<lparr>node_type = ''generateImage'', node_id = ''concept_visualization'',
           node_prompt = ''Create a 3D scientific illustration showing {concept} with clear labels and educational annotations'',
           node_position = (100, 100), node_data = None\<rparr>,
          \<lparr>node_type = ''editImage'', node_id = ''add_annotations'',
           node_prompt = ''Add educational labels, arrows, and explanations to make this diagram more educational'',
           node_position = (400, 100), node_data = None\<rparr>,
          \<lparr>node_type = ''generateImage'', node_id = ''animation_frame_1'',
           node_prompt = ''Create the first frame of an animation showing {concept} in action'',
           node_position = (100, 300), node_data = None\<rparr>,
          \<lparr>node_type = ''generateImage'', node_id = ''animation_frame_2'',
           node_prompt = ''Create the second frame of an animation showing {concept} in action'',
           node_position = (300, 300), node_data = None\<rparr>,
          \<lparr>node_type = ''generateImage'', node_id = ''animation_frame_3'',
           node_prompt = ''Create the third frame of an animation showing {concept} in action'',
           node_position = (500, 300), node_data = None\<rparr>],
        wf_edges =
         [\<lparr>edge_source = ''concept_visualization'', edge_target = ''add_annotations''\<rparr>,
          \<lparr>edge_source = ''animation_frame_1'', edge_target = ''animation_frame_2''\<rparr>,
          \<lparr>edge_source = ''animation_frame_2'', edge_target = ''animation_frame_3''\<rparr>]\<rparr>),
      (''chemistry'',
       \<lparr>wf_name = ''Chemistry Molecular Visualization'',
        wf_nodes =
         [\<lparr>node_type = ''generateImage'', node_id = ''molecular_structure'',
           node_prompt = ''Create a 3D molecular structure diagram of {molecule} with accurate bond angles and atom colors'',
           node_position = (100, 100), node_data = None\<rparr>,
          \<lparr>node_type = ''editImage'', node_id = ''add_bond_labels'',
           node_prompt = ''Add bond type labels, electron pairs, and molecular geometry annotations'',
           node_position = (400, 100), node_data = None\<rparr>,
          \<lparr>node_type = ''generateImage'', node_id = ''reaction_mechanism'',
           node_prompt = ''Create a step-by-step reaction mechanism diagram showing {reaction}'',
           node_position = (100, 300), node_data = None\<rparr>],
        wf_edges =
         [\<lparr>edge_source = ''molecular_structure'', edge_target = ''add_bond_labels''\<rparr>]\<rparr>),
      (''biology'',
       \<lparr>wf_name = ''Biology Process Visualization'',
        wf_nodes =
         [\<lparr>node_type = ''generateImage'', node_id = ''cell_structure'',
           node_prompt = ''Create a detailed cross-section of a {cell_type} showing all organelles and their functions'',
           node_position = (100, 100), node_data = None\<rparr>,
          \<lparr>node_type = ''editImage'', node_id = ''highlight_process'',
           node_prompt = ''Highlight the {process} pathway with arrows and color coding'',
           node_position = (400, 100), node_data = None\<rparr>,
          \<lparr>node_type = ''generateImage'', node_id = ''process_animation_1'',
           node_prompt = ''Create the first stage of {process} with clear visual indicators'',
           node_position = (100, 300), node_data = None\<rparr>,
          \<lparr>node_type = ''generateImage'', node_id = ''process_animation_2'',
           node_prompt = ''Create the second stage of {process} with clear visual indicators'',
           node_position = (300, 300), node_data = None\<rparr>],
        wf_edges =
         [\<lparr>edge_source = ''cell_structure'', edge_target = ''highlight_process''\<rparr>,
          \<lparr>edge_source = ''process_animation_1'', edge_target = ''process_animation_2''\<rparr>]\<rparr>)]"

text \<open>\<open>__init__\<close>: \<open>setup_agents\<close>, then \<open>setup_nano_banana\<close>.\<close>

definition new_platform :: platform where
  "new_platform =
     \<lparr>content_analyzer = content_analyzer_agent,
      workflow_designer = workflow_designer_agent,
      nano_banana_url = ''http://localhost:3000'',
      workflow_templates = load_workflow_templates\<rparr>"

subsection \<open>\<open>analyze_educational_topic\<close>\<close>

text \<open>The analysis is a fixed dictionary filled in with the three arguments.\<close>

definition analyze_educational_topic :: "string \<Rightarrow> string \<Rightarrow> string \<Rightarrow> analysis" where
  "analyze_educational_topic topic subject level =
     \<lparr>a_topic = Some topic,
      a_subject = Some subject,
      a_level = Some level,
      a_concepts = Some
        [\<lparr>c_name = Some ''Main Concept'',
          c_description = Some (''Visual representation of '' @ topic),
          c_image_prompt = Some (''Create a 3D educational illustration of '' @ topic @
                                 '' suitable for '' @ level @ '' students''),
          c_annotations = Some [''Key terms'', ''Important relationships'', ''Process steps'']\<rparr>],
      a_workflow_steps = Some
        [''Generate main concept visualization'',
         ''Add educational annotations'',
         ''Create animation frames'',
         ''Combine into educational sequence''],
      a_animation_frames = Some 3,
      a_estimated_duration = Some 120\<rparr>"

subsection \<open>\<open>create_nano_banana_workflow\<close>\<close>

text \<open>
  The first two statements of the builder: the subject is read with the default
  \<open>general\<close> and lowered, and the template is looked up with the physics template as the
  default. The default is evaluated before the lookup, so a table without the key
  \<open>physics\<close> raises \<open>KeyError\<close>.
\<close>

definition resolve_template :: "platform \<Rightarrow> analysis \<Rightarrow> exn + workflow" where
  "resolve_template self a =
     (let subject = lower (case a_subject a of None \<Rightarrow> ''general'' | Some s \<Rightarrow> s)
      in case map_of (workflow_templates self) ''physics'' of
           None \<Rightarrow> Inl (KeyError ''physics'')
         | Some physics \<Rightarrow>
             Inr (case map_of (workflow_templates self) subject of
                    None \<Rightarrow> physics
                  | Some t \<Rightarrow> t))"

text \<open>The two nodes and the edge that one pass of the loop appends for index \<open>i\<close>.\<close>

definition concept_node :: "nat \<Rightarrow> string \<Rightarrow> string \<Rightarrow> node" where
  "concept_node i image_prompt cname =
     \<lparr>node_type = ''generateImage'',
      node_id = ''concept_'' @ str_nat i,
      node_prompt = image_prompt,
      node_position = (100 + int i * 300, 100),
      node_data = Some [(''prompt'', image_prompt), (''concept'', cname)]\<rparr>"

definition annotate_node :: "nat \<Rightarrow> string list \<Rightarrow> node" where
  "annotate_node i annotations =
     \<lparr>node_type = ''editImage'',
      node_id = ''annotate_'' @ str_nat i,
      node_prompt = ''Add educational annotations: '' @ join '', '' annotations,
      node_position = (100 + int i * 300, 300),
      node_data = Some [(''prompt'', ''Add educational annotations: '' @ join '', '' annotations)]\<rparr>"

definition concept_edge :: "nat \<Rightarrow> edge" where
  "concept_edge i =
     \<lparr>edge_source = ''concept_'' @ str_nat i, edge_target = ''annotate_'' @ str_nat i\<rparr>"

text \<open>
  The loop \<open>for i, concept in enumerate(analysis["concepts"])\<close>, over the pairs that
  \<open>enumerate\<close> yields. The keys of a concept are read in the order \<open>image_prompt\<close>,
  \<open>name\<close>, \<open>annotations\<close>; a missing one raises and the workflow built so far is lost.
\<close>

fun add_concepts :: "(nat \<times> concept) list \<Rightarrow> workflow \<Rightarrow> exn + workflow" where
  "add_concepts [] w = Inr w"
| "add_concepts ((i, c) # rest) w =
     (case c_image_prompt c of
        None \<Rightarrow> Inl (KeyError ''image_prompt'')
      | Some image_prompt \<Rightarrow>
          (case c_name c of
             None \<Rightarrow> Inl (KeyError ''name'')
           | Some cname \<Rightarrow>
               (case c_annotations c of
                  None \<Rightarrow> Inl (KeyError ''annotations'')
                | Some annotations \<Rightarrow>
                    add_concepts rest
                      (w\<lparr>wf_nodes := wf_nodes w @
                                     [concept_node i image_prompt cname,
                                      annotate_node i annotations],
                         wf_edges := wf_edges w @ [concept_edge i]\<rparr>))))"

definition create_nano_banana_workflow :: "platform \<Rightarrow> analysis \<Rightarrow> exn + workflow" where
  "create_nano_banana_workflow self a =
     (case resolve_template self a of
        Inl e \<Rightarrow> Inl e
      | Inr template \<Rightarrow>
          (case a_topic a of
             None \<Rightarrow> Inl (KeyError ''topic'')
           | Some topic \<Rightarrow>
               (case a_concepts a of
                  None \<Rightarrow> Inl (KeyError ''concepts'')
                | Some concepts \<Rightarrow>
                    add_concepts (enumerate 0 concepts)
                      \<lparr>wf_name = ''Educational Workflow: '' @ topic,
                       wf_nodes = [],
                       wf_edges = []\<rparr>)))"

text \<open>
  \<open>get_example_by_subject\<close> of \<open>example_use_cases.py\<close>: \<open>ALL_EXAMPLES.get(subject, {})\<close>.
  The table of examples is a parameter; its keys in the source are \<open>Physics\<close>,
  \<open>Chemistry\<close>, \<open>Biology\<close>, \<open>Mathematics\<close> and \<open>History\<close>.
\<close>

definition get_example_by_subject ::
  "(string \<rightharpoonup> (string \<rightharpoonup> 'v)) \<Rightarrow> string \<Rightarrow> (string \<rightharpoonup> 'v)" where
  "get_example_by_subject all_examples subject =
     (case all_examples subject of None \<Rightarrow> Map.empty | Some examples \<Rightarrow> examples)"

text \<open>
  Referential integrity of a workflow: the source and the target of every edge are ids
  of nodes of the workflow.
\<close>

definition node_ids :: "workflow \<Rightarrow> string list" where
  "node_ids w = map node_id (wf_nodes w)"

definition edges_resolve :: "workflow \<Rightarrow> bool" where
  "edges_resolve w =
     list_all (\<lambda>e. edge_source e \<in> set (node_ids w) \<and> edge_target e \<in> set (node_ids w))
       (wf_edges w)"

text \<open>An analysis that carries every key the builder reads.\<close>

definition complete_concept :: "concept \<Rightarrow> bool" where
  "complete_concept c =
     (c_image_prompt c \<noteq> None \<and> c_name c \<noteq> None \<and> c_annotations c \<noteq> None)"

definition complete_analysis :: "analysis \<Rightarrow> bool" where
  "complete_analysis a =
     (a_topic a \<noteq> None \<and>
      (case a_concepts a of None \<Rightarrow> False | Some cs \<Rightarrow> list_all complete_concept cs))"


section \<open>The generation pipeline (\<open>nano_banana_integration.py\<close>, \<open>enhanced_app.py\<close>)\<close>

subsection \<open>The outside world\<close>

text \<open>
  The pipeline calls into the operating system and into libraries. Each such call is a
  field of a \<open>world\<close>: given the arguments of the call it says what the call returns, or
  which exception it raises. \<open>subprocess.run\<close> returns the exit status and the standard
  error of the child; \<open>NamedTemporaryFile\<close> followed by \<open>write\<close> returns the name of the
  file; \<open>os.makedirs(d, exist_ok=True)\<close>, \<open>open(p, 'w')\<close> followed by \<open>write\<close>,
  \<open>os.unlink\<close> and \<open>st.image\<close> return nothing. The answer to a call depends on its
  arguments only. The other Streamlit calls (\<open>st.info\<close>, \<open>st.warning\<close>, \<open>st.error\<close>,
  \<open>st.json\<close>) only display and are left out.
\<close>

record world =
  subprocess_run :: "string list \<Rightarrow> exn + int \<times> string"
  named_temporary_file :: "string \<Rightarrow> exn + string"
  makedirs :: "string \<Rightarrow> exn option"
  open_write :: "string \<Rightarrow> string \<Rightarrow> exn option"
  unlink :: "string \<Rightarrow> exn option"
  st_image :: "string \<Rightarrow> string \<Rightarrow> exn option"

text \<open>
  A run is observed through the calls it makes, in order. A call that raises is logged
  too: it is the last call of the function that made it.
\<close>

datatype event =
    Subprocess_run "string list"
  | Named_temporary_file string
  | Makedirs string
  | Open_write string string
  | Unlink string
  | St_image string string

type_synonym 'a io = "(exn + 'a) \<times> event list"

subsection \<open>\<open>execute_nano_banana_workflow\<close>\<close>

definition mock_images_of :: "node \<Rightarrow> string list" where
  "mock_images_of n =
     (if node_type n = ''generateImage'' then [''mock_image_'' @ node_id n @ ''.jpg'']
      else if node_type n = ''editImage'' then [''mock_edited_'' @ node_id n @ ''.jpg'']
      else [])"

definition execute_nano_banana_workflow :: "workflow \<Rightarrow> string list" where
  "execute_nano_banana_workflow w = concat (map mock_images_of (wf_nodes w))"

subsection \<open>\<open>create_video_from_images\<close>\<close>

text \<open>
  \<open>os.path.dirname\<close>: the part of the path up to its last slash, without the trailing
  slashes unless it consists of slashes only.
\<close>

definition dirname :: "string \<Rightarrow> string" where
  "dirname p =
     (let head = rev (dropWhile (\<lambda>c. c \<noteq> CHR ''/'') (rev p))
      in if head \<noteq> [] \<and> head \<noteq> replicate (length head) (CHR ''/'')
         then rev (dropWhile (\<lambda>c. c = CHR ''/'') (rev head))
         else head)"

definition nano_banana_video_path :: "string \<Rightarrow> string" where
  "nano_banana_video_path topic = ''output/'' @ replace_space topic @ ''_nano_banana_video.mp4''"

definition create_video_from_images :: "world \<Rightarrow> string list \<Rightarrow> string \<Rightarrow> string io" where
  "create_video_from_images w images topic =
     (let video_path = nano_banana_video_path topic
      in case makedirs w (dirname video_path) of
           Some e \<Rightarrow> (Inl e, [Makedirs (dirname video_path)])
         | None \<Rightarrow>
             (case open_write w video_path ''Mock video content'' of
                Some e \<Rightarrow>
                  (Inl e, [Makedirs (dirname video_path),
                           Open_write video_path ''Mock video content''])
              | None \<Rightarrow>
                  (Inr video_path, [Makedirs (dirname video_path),
                                    Open_write video_path ''Mock video content''])))"

subsection \<open>\<open>generate_educational_video\<close>\<close>

text \<open>
  The loop \<open>for i, image in enumerate(images): st.image(image, caption=...)\<close>; the first
  call that raises ends it.
\<close>

fun show_images :: "world \<Rightarrow> (nat \<times> string) list \<Rightarrow> unit io" where
  "show_images w [] = (Inr (), [])"
| "show_images w ((i, img) # rest) =
     (let caption = ''Generated Image '' @ str_nat (i + 1)
      in case st_image w img caption of
           Some e \<Rightarrow> (Inl e, [St_image img caption])
         | None \<Rightarrow>
             (case show_images w rest of
                (r, log) \<Rightarrow> (r, St_image img caption # log)))"

definition generate_educational_video ::
  "world \<Rightarrow> platform \<Rightarrow> string \<Rightarrow> string \<Rightarrow> string \<Rightarrow> string io" where
  "generate_educational_video w self topic subject level =
     (let analysis = analyze_educational_topic topic subject level
      in case create_nano_banana_workflow self analysis of
           Inl e \<Rightarrow> (Inl e, [])
         | Inr workflow \<Rightarrow>
             (let images = execute_nano_banana_workflow workflow
              in case show_images w (enumerate 0 images) of
                   (Inl e, log) \<Rightarrow> (Inl e, log)
                 | (Inr u, log) \<Rightarrow>
                     (case create_video_from_images w images topic of
                        (r, log') \<Rightarrow> (r, log @ log'))))"

subsection \<open>The 3D backend of \<open>enhanced_app.py\<close>\<close>

text \<open>The analysis dictionary of \<open>analyze_topic\<close> and the attributes of the platform.\<close>

record concept_3d =
  c3_name :: string
  c3_description :: string
  c3_objects :: "string list"
  c3_animations :: "string list"
  c3_camera_angles :: "string list"
  c3_annotations :: "string list"

record analysis_3d =
  a3_topic :: string
  a3_subject :: string
  a3_level :: string
  a3_concepts :: "concept_3d list"
  a3_workflow_steps :: "string list"
  a3_animation_frames :: int
  a3_estimated_duration :: int

record enhanced_platform =
  content_analyzer_of :: agent
  scene_designer_of :: agent
  video_generator_of :: agent
  nano_banana_platform :: platform

definition content_analyzer_3d :: agent where
  "content_analyzer_3d =
     \<lparr>agent_name = ''Content Analyzer'',
      agent_instructions =
        ''\<newline>'' @
        ''            You are an expert educational content analyzer. Your job is to:\<newline>'' @
        ''            1. Break down any educational topic into key visual concepts\<newline>'' @
        ''            2. Identify what 3D objects, animations, and scenes would best demonstrate the concept\<newline>'' @
        ''            3. Create a detailed storyboard with camera movements and object interactions\<newline>'' @
        ''            4. Suggest appropriate 3D models and materials needed\<newline>'' @
        ''            \<newline>'' @
        ''            Always think in terms of 3D visualization and educational effectiveness.\<newline>'' @
        ''            '',
      agent_tools = []\<rparr>"

definition scene_designer_3d :: agent where
  "scene_designer_3d =
     \<lparr>agent_name = ''3D Scene Designer'',
      agent_instructions =
        ''\<newline>'' @
        ''            You are a 3D scene design expert. Your job is to:\<newline>'' @
        ''            1. Convert educational concepts into Blender Python API code\<newline>'' @
        ''            2. Create 3D scenes with appropriate lighting, materials, and camera angles\<newline>'' @
        ''            3. Design smooth animations that demonstrate the concept clearly\<newline>'' @
        ''            4. Optimize scenes for educational video production\<newline>'' @
        ''            \<newline>'' @
        ''            Generate complete Blender Python scripts that can be executed directly.\<newline>'' @
        ''            '',
      agent_tools = []\<rparr>"

definition video_generator_3d :: agent where
  "video_generator_3d =
     \<lparr>agent_name = ''Video Generator'',
      agent_instructions =
        ''\<newline>'' @
        ''            You are a video production expert. Your job is to:\<newline>'' @
        ''            1. Take 3D rendered frames and create compelling educational videos\<newline>'' @
        ''            2. Add appropriate transitions, text overlays, and educational annotations\<newline>'' @
        ''            3. Ensure videos are optimized for different platforms and devices\<newline>'' @
        ''            4. Create engaging thumbnails and previews\<newline>'' @
        ''            \<newline>'' @
        ''            Focus on educational effectiveness and visual appeal.\<newline>'' @
        ''            '',
      agent_tools = []\<rparr>"

definition script_before_topic :: string where
  \<open>script_before_topic =
     ''\<newline>'' @
     ''import bpy\<newline>'' @
     ''import bmesh\<newline>'' @
     ''from mathutils import Vector\<newline>'' @
     ''import math\<newline>'' @
     ''\<newline>'' @
     ''# Clear existing mesh objects\<newline>'' @
     ''bpy.ops.object.select_all(action='SELECT')\<newline>'' @
     ''bpy.ops.object.delete(use_global=False)\<newline>'' @
     ''\<newline>'' @
     ''# Set up scene\<newline>'' @
     ''scene = bpy.context.scene\<newline>'' @
     ''scene.frame_start = 1\<newline>'' @
     ''scene.frame_end = 300\<newline>'' @
     ''\<newline>'' @
     ''# Set up camera\<newline>'' @
     ''bpy.ops.object.camera_add(location=(0, -10, 5))\<newline>'' @
     ''camera = bpy.context.object\<newline>'' @
     ''camera.rotation_euler = (math.radians(60), 0, 0)\<newline>'' @
     ''scene.camera = camera\<newline>'' @
     ''\<newline>'' @
     ''# Set up lighting\<newline>'' @
     ''bpy.ops.object.light_add(type='SUN', location=(5, 5, 10))\<newline>'' @
     ''sun = bpy.context.object\<newline>'' @
     ''sun.data.energy = 3\<newline>'' @
     ''\<newline>'' @
     ''# Create educational objects for: ''\<close>

definition script_after_topic :: string where
  \<open>script_after_topic =
     ''\<newline>'' @
     ''# This would be customized based on the analysis\<newline>'' @
     ''bpy.ops.mesh.primitive_uv_sphere_add(location=(0, 0, 0), radius=2)\<newline>'' @
     ''sphere = bpy.context.object\<newline>'' @
     ''sphere.name = "Main_Concept"\<newline>'' @
     ''\<newline>'' @
     ''# Add material\<newline>'' @
     ''mat = bpy.data.materials.new(name="Concept_Material")\<newline>'' @
     ''mat.use_nodes = True\<newline>'' @
     ''mat.node_tree.nodes["Principled BSDF"].inputs[0].default_value = (0.0, 0.5, 1.0, 1.0)\<newline>'' @
     ''sphere.data.materials.append(mat)\<newline>'' @
     ''\<newline>'' @
     ''# Set up rendering\<newline>'' @
     ''scene.render.engine = 'CYCLES'\<newline>'' @
     ''scene.render.resolution_x = 1920\<newline>'' @
     ''scene.render.resolution_y = 1080\<newline>'' @
     ''scene.render.fps = 30\<newline>'' @
     ''scene.render.filepath = "/tmp/3d_edu_video/"\<newline>'' @
     ''\<newline>'' @
     ''# Render animation\<newline>'' @
     ''bpy.ops.render.render(animation=True)\<newline>''\<close>

definition new_enhanced_platform :: enhanced_platform where
  "new_enhanced_platform =
     \<lparr>content_analyzer_of = content_analyzer_3d,
      scene_designer_of = scene_designer_3d,
      video_generator_of = video_generator_3d,
      nano_banana_platform = new_platform\<rparr>"

definition analyze_topic :: "string \<Rightarrow> string \<Rightarrow> string \<Rightarrow> analysis_3d" where
  "analyze_topic topic subject level =
     \<lparr>a3_topic = topic,
      a3_subject = subject,
      a3_level = level,
      a3_concepts =
        [\<lparr>c3_name = ''Main Concept'',
          c3_description = ''Visual representation of '' @ topic,
          c3_objects = [''Sphere'', ''Cube'', ''Cylinder''],
          c3_animations = [''Rotation'', ''Scale'', ''Movement''],
          c3_camera_angles = [''Front'', ''Side'', ''Top''],
          c3_annotations = [''Key terms'', ''Important relationships'', ''Process steps'']\<rparr>],
      a3_workflow_steps =
        [''Generate main concept visualization'',
         ''Add educational annotations'',
         ''Create animation frames'',
         ''Combine into educational sequence''],
      a3_animation_frames = 3,
      a3_estimated_duration = 120\<rparr>"

text \<open>\<open>create_3d_scene\<close>: the Blender script, with the topic in its one placeholder.\<close>

definition create_3d_scene :: "analysis_3d \<Rightarrow> string" where
  "create_3d_scene analysis = script_before_topic @ a3_topic analysis @ script_after_topic"

text \<open>
  \<open>execute_blender_script\<close>: the script goes to a temporary file; inside \<open>try\<close> the
  output directory is made and Blender is run; \<open>finally\<close> removes the temporary file,
  and an exception of the removal replaces the outcome of the body. The result is the
  path of the video, or \<open>None\<close> when Blender exits with a non-zero status.
\<close>

definition blender_command :: "string \<Rightarrow> string \<Rightarrow> string list" where
  "blender_command script_path output_dir =
     [''blender'', ''--background'', ''--python'', script_path, ''--'', output_dir]"

definition run_blender :: "world \<Rightarrow> string \<Rightarrow> string \<Rightarrow> string option io" where
  "run_blender w script_path topic =
     (let output_dir = ''output/'' @ replace_space topic
      in case makedirs w output_dir of
           Some e \<Rightarrow> (Inl e, [Makedirs output_dir])
         | None \<Rightarrow>
             (let cmd = blender_command script_path output_dir
              in case subprocess_run w cmd of
                   Inl e \<Rightarrow> (Inl e, [Makedirs output_dir, Subprocess_run cmd])
                 | Inr (returncode, stderr) \<Rightarrow>
                     (Inr (if returncode = 0 then Some (output_dir @ ''/final_video.mp4'')
                           else None),
                      [Makedirs output_dir, Subprocess_run cmd])))"

definition execute_blender_script :: "world \<Rightarrow> string \<Rightarrow> string \<Rightarrow> string option io" where
  "execute_blender_script w script topic =
     (case named_temporary_file w script of
        Inl e \<Rightarrow> (Inl e, [Named_temporary_file script])
      | Inr script_path \<Rightarrow>
          (case run_blender w script_path topic of
             (r, log) \<Rightarrow>
               (case unlink w script_path of
                  Some e \<Rightarrow> (Inl e, Named_temporary_file script # log @ [Unlink script_path])
                | None \<Rightarrow> (r, Named_temporary_file script # log @ [Unlink script_path]))))"

text \<open>
  \<open>generate_video\<close>: Blender counts as available when \<open>blender --version\<close> returns the
  status 0; any exception of the probe is caught and counts as not available. Without
  Blender the request goes to the image-workflow backend, with the fixed subject
  \<open>Physics\<close> and level \<open>High School\<close>.
\<close>

definition blender_available :: "world \<Rightarrow> bool" where
  "blender_available w =
     (case subprocess_run w [''blender'', ''--version''] of
        Inl e \<Rightarrow> False
      | Inr (returncode, stderr) \<Rightarrow> returncode = 0)"

definition generate_video ::
  "world \<Rightarrow> enhanced_platform \<Rightarrow> string \<Rightarrow> string \<Rightarrow> string option io" where
  "generate_video w self topic script =
     (if \<not> blender_available w then
        (case generate_educational_video w (nano_banana_platform self)
                topic ''Physics'' ''High School'' of
           (r, log) \<Rightarrow> (map_sum id Some r, Subprocess_run [''blender'', ''--version''] # log))
      else
        (case execute_blender_script w script topic of
           (r, log) \<Rightarrow> (r, Subprocess_run [''blender'', ''--version''] # log)))"

subsection \<open>The choice of the backend in \<open>render_main_content\<close>\<close>

record settings =
  openai_key :: string
  google_key :: string
  subject_of :: string
  level_of :: string
  topic_of :: string
  duration_of :: int
  quality_of :: string
  language_of :: string
  generation_method :: string

text \<open>
  The value of \<open>video_path\<close> after the three-way choice on the generation method. The
  last branch (Hybrid) tries the 3D backend inside \<open>try\<close>; its bare \<open>except\<close> catches
  every exception and goes to the image-workflow backend.
\<close>

definition video_path_3d :: "world \<Rightarrow> enhanced_platform \<Rightarrow> settings \<Rightarrow> string option io" where
  "video_path_3d w platform s =
     (let analysis = analyze_topic (topic_of s) (subject_of s) (level_of s);
          script = create_3d_scene analysis
      in generate_video w platform (topic_of s) script)"

definition video_path_nano_banana ::
  "world \<Rightarrow> enhanced_platform \<Rightarrow> settings \<Rightarrow> string option io" where
  "video_path_nano_banana w platform s =
     (case generate_educational_video w (nano_banana_platform platform)
             (topic_of s) (subject_of s) (level_of s) of
        (r, log) \<Rightarrow> (map_sum id Some r, log))"

definition video_path_hybrid :: "world \<Rightarrow> enhanced_platform \<Rightarrow> settings \<Rightarrow> string option io" where
  "video_path_hybrid w platform s =
     (case video_path_3d w platform s of
        (Inr video_path, log) \<Rightarrow> (Inr video_path, log)
      | (Inl e, log) \<Rightarrow>
          (case video_path_nano_banana w platform s of
             (r, log') \<Rightarrow> (r, log @ log')))"

definition render_video_path :: "world \<Rightarrow> enhanced_platform \<Rightarrow> settings \<Rightarrow> string option io" where
  "render_video_path w platform s =
     (if generation_method s = ''3D Blender (Full 3D)'' then video_path_3d w platform s
      else if generation_method s = ''Nano Banana (Visual Workflow)''
      then video_path_nano_banana w platform s
      else video_path_hybrid w platform s)"


section \<open>The process supervisor (\<open>start_nano_banana.py\<close>)\<close>

subsection \<open>State, host and actions\<close>

text \<open>
  A \<open>NanoBananaManager\<close> holds two optional \<open>Popen\<close> objects and a flag. A \<open>Popen\<close> object
  is named by the process id of its child.
\<close>

record manager =
  nano_banana_process :: "nat option"
  streamlit_process :: "nat option"
  running :: bool

definition new_manager :: manager where
  "new_manager =
     \<lparr>nano_banana_process = None, streamlit_process = None, running = False\<rparr>"

text \<open>
  What the host answers while the processes are started: \<open>tool_version\<close> is
  \<open>subprocess.run(cmd, check=True, capture_output=True)\<close> before the check of the status
  (the exit status, or the exception that \<open>run\<close> itself raises); \<open>nano_banana_path\<close> is the
  directory computed from the place of the script; \<open>chdir\<close> and \<open>popen\<close> raise nothing or
  an \<open>OSError\<close>, given by its message; \<open>poll_after_start\<close> is \<open>poll()\<close> after the three
  seconds of waiting, \<open>None\<close> for a child that is still alive.
\<close>

record host =
  tool_version :: "string list \<Rightarrow> exn + int"
  nano_banana_path :: string
  path_exists :: "string \<Rightarrow> bool"
  chdir :: "string \<Rightarrow> string option"
  popen :: "string list \<Rightarrow> string + nat"
  poll_after_start :: "nat \<Rightarrow> int option"

text \<open>
  What happens while the processes are monitored, one entry for each pass of the loop:
  the answers of the two \<open>poll()\<close> calls of that pass, or the arrival of \<open>SIGINT\<close>. The
  list is finite; a loop that has used it up is still running.
\<close>

datatype tick = Polls "int option" "int option" | Sigint

text \<open>
  SIGINT raises \<open>KeyboardInterrupt\<close> by default; \<open>run\<close> installs \<open>signal_handler\<close>, which
  calls \<open>stop_processes\<close> and then \<open>sys.exit(0)\<close>.
\<close>

datatype sigint_disposition = Default_int_handler | Signal_handler

text \<open>
  The actions of the supervisor, in the order in which it performs them. A printed line
  is given without the pictograph that opens it in the source and the space after it.
\<close>

datatype action =
    Print string
  | Run_check "string list"
  | Chdir string
  | Popen "string list"
  | Sleep nat
  | Poll nat
  | Terminate nat
  | Signal_sigint

subsection \<open>\<open>start_nano_banana\<close> and \<open>start_streamlit\<close>\<close>

definition start_nano_banana :: "host \<Rightarrow> manager \<Rightarrow> bool \<times> manager \<times> action list" where
  "start_nano_banana h m =
     (let path = nano_banana_path h
      in if \<not> path_exists h path then
           (False, m,
            [Print ''Nano Banana directory not found!'',
             Print (''Expected path: '' @ path)])
         else
           (case chdir h path of
              Some msg \<Rightarrow>
                (False, m,
                 [Print ''Starting Nano Banana...'', Chdir path,
                  Print (''Error starting Nano Banana: '' @ msg)])
            | None \<Rightarrow>
                (case popen h [''npm'', ''run'', ''dev''] of
                   Inl msg \<Rightarrow>
                     (False, m,
                      [Print ''Starting Nano Banana...'', Chdir path,
                       Popen [''npm'', ''run'', ''dev''],
                       Print (''Error starting Nano Banana: '' @ msg)])
                 | Inr p \<Rightarrow>
                     (case poll_after_start h p of
                        None \<Rightarrow>
                          (True, m\<lparr>nano_banana_process := Some p\<rparr>,
                           [Print ''Starting Nano Banana...'', Chdir path,
                            Popen [''npm'', ''run'', ''dev''], Sleep 3, Poll p,
                            Print ''Nano Banana started successfully!'',
                            Print ''Nano Banana running at: http://localhost:3000''])
                      | Some returncode \<Rightarrow>
                          (False, m\<lparr>nano_banana_process := Some p\<rparr>,
                           [Print ''Starting Nano Banana...'', Chdir path,
                            Popen [''npm'', ''run'', ''dev''], Sleep 3, Poll p,
                            Print ''Failed to start Nano Banana''])))))"

definition streamlit_command :: "string list" where
  "streamlit_command = [''streamlit'', ''run'', ''enhanced_app.py'', ''--server.port=8501'']"

definition start_streamlit :: "host \<Rightarrow> manager \<Rightarrow> bool \<times> manager \<times> action list" where
  "start_streamlit h m =
     (case popen h streamlit_command of
        Inl msg \<Rightarrow>
          (False, m,
           [Print ''Starting 3D Video Educational AI Platform...'',
            Popen streamlit_command,
            Print (''Error starting Streamlit: '' @ msg)])
      | Inr p \<Rightarrow>
          (case poll_after_start h p of
             None \<Rightarrow>
               (True, m\<lparr>streamlit_process := Some p\<rparr>,
                [Print ''Starting 3D Video Educational AI Platform...'',
                 Popen streamlit_command, Sleep 3, Poll p,
                 Print ''Streamlit started successfully!'',
                 Print ''3D Video Edu Platform running at: http://localhost:8501''])
           | Some returncode \<Rightarrow>
               (False, m\<lparr>streamlit_process := Some p\<rparr>,
                [Print ''Starting 3D Video Educational AI Platform...'',
                 Popen streamlit_command, Sleep 3, Poll p,
                 Print ''Failed to start Streamlit''])))"

subsection \<open>\<open>stop_processes\<close>\<close>

text \<open>
  Each process object that is set is sent \<open>terminate()\<close>, which is taken to return
  without an exception; the objects stay set, and the flag is cleared.
\<close>

definition stop_processes :: "manager \<Rightarrow> manager \<times> action list" where
  "stop_processes m =
     (m\<lparr>running := False\<rparr>,
      [Print ''\<newline>Stopping processes...''] @
      (case nano_banana_process m of
         None \<Rightarrow> []
       | Some p \<Rightarrow> [Terminate p, Print ''Nano Banana stopped'']) @
      (case streamlit_process m of
         None \<Rightarrow> []
       | Some p \<Rightarrow> [Terminate p, Print ''Streamlit stopped'']))"

subsection \<open>\<open>monitor_processes\<close>\<close>

text \<open>
  One pass of \<open>while self.running\<close> for each tick. The result is \<open>None\<close> when the ticks
  are used up and the loop is still running, \<open>Some (Inr ())\<close> when the loop has ended and
  \<open>Some (Inl e)\<close> when the exception \<open>e\<close> leaves it. Nano Banana is polled first; Streamlit
  is polled only when Nano Banana has not been found exited. \<open>KeyboardInterrupt\<close> is
  caught by the loop and ends it; the \<open>SystemExit\<close> of \<open>signal_handler\<close> is not caught.
\<close>

fun monitor_processes ::
  "sigint_disposition \<Rightarrow> manager \<Rightarrow> tick list \<Rightarrow> (exn + unit) option \<times> manager \<times> action list"
where
  "monitor_processes d m ticks =
     (if \<not> running m then (Some (Inr ()), m, [])
      else
        (case ticks of
           [] \<Rightarrow> (None, m, [])
         | Sigint # rest \<Rightarrow>
             (case d of
                Default_int_handler \<Rightarrow> (Some (Inr ()), m, [])
              | Signal_handler \<Rightarrow>
                  (case stop_processes m of
                     (m', log) \<Rightarrow> (Some (Inl (SystemExit 0)), m', log)))
         | Polls nb st # rest \<Rightarrow>
             (let poll_nb = (case nano_banana_process m of None \<Rightarrow> [] | Some p \<Rightarrow> [Poll p]);
                  poll_st = (case streamlit_process m of None \<Rightarrow> [] | Some p \<Rightarrow> [Poll p])
              in if nano_banana_process m \<noteq> None \<and> nb \<noteq> None then
                   (Some (Inr ()), m\<lparr>running := False\<rparr>,
                    poll_nb @ [Print ''Nano Banana stopped unexpectedly''])
                 else if streamlit_process m \<noteq> None \<and> st \<noteq> None then
                   (Some (Inr ()), m\<lparr>running := False\<rparr>,
                    poll_nb @ poll_st @ [Print ''Streamlit stopped unexpectedly''])
                 else
                   (case monitor_processes d m rest of
                      (r, m', log) \<Rightarrow> (r, m', poll_nb @ poll_st @ [Sleep 1] @ log)))))"

declare monitor_processes.simps [simp del]

subsection \<open>\<open>run\<close> and \<open>main\<close>\<close>

text \<open>
  The check of the tools: \<open>True\<close> when both commands return the status 0, \<open>False\<close> when
  \<open>CalledProcessError\<close> is caught (a non-zero status under \<open>check=True\<close>); any other
  exception of \<open>subprocess.run\<close> is not caught.
\<close>

definition check_tool :: "host \<Rightarrow> string list \<Rightarrow> exn + bool" where
  "check_tool h cmd =
     (case tool_version h cmd of
        Inl (CalledProcessError n) \<Rightarrow> Inr False
      | Inl e \<Rightarrow> Inl e
      | Inr returncode \<Rightarrow> Inr (returncode = 0))"

definition check_tools :: "host \<Rightarrow> (exn + bool) \<times> action list" where
  "check_tools h =
     (case check_tool h [''npm'', ''--version''] of
        Inl e \<Rightarrow> (Inl e, [Run_check [''npm'', ''--version'']])
      | Inr False \<Rightarrow> (Inr False, [Run_check [''npm'', ''--version'']])
      | Inr True \<Rightarrow>
          (check_tool h [''streamlit'', ''--version''],
           [Run_check [''npm'', ''--version''], Run_check [''streamlit'', ''--version'']]))"

definition banner :: "action list" where
  "banner =
     [Print ''3D Video Educational AI Platform + Nano Banana'',
      Print (replicate 50 (CHR ''=''))]"

definition announcement :: "action list" where
  "announcement =
     [Print ''\<newline>Both applications are running!'',
      Print (replicate 50 (CHR ''='')),
      Print ''3D Video Edu Platform: http://localhost:8501'',
      Print ''Nano Banana Workflow: http://localhost:3000'',
      Print (replicate 50 (CHR ''='')),
      Print ''Press Ctrl+C to stop both applications'']"

text \<open>
  \<open>run\<close>. Every \<open>return\<close> of the source is the outcome \<open>Some (Inr ())\<close>. The call of
  \<open>monitor_processes\<close> stands in \<open>try\<close>, with \<open>stop_processes\<close> as the handler of
  \<open>KeyboardInterrupt\<close>.
\<close>

definition run ::
  "host \<Rightarrow> tick list \<Rightarrow> manager \<Rightarrow> (exn + unit) option \<times> manager \<times> action list" where
  "run h ticks m =
     (case check_tools h of
        (Inl e, log0) \<Rightarrow> (Some (Inl e), m, banner @ log0)
      | (Inr False, log0) \<Rightarrow>
          (Some (Inr ()), m,
           banner @ log0 @
           [Print ''Required tools not found!'',
            Print ''Please install Node.js and Streamlit''])
      | (Inr True, log0) \<Rightarrow>
          (case start_nano_banana h m of
             (False, m1, log1) \<Rightarrow>
               (Some (Inr ()), m1,
                banner @ log0 @ log1 @ [Print ''Cannot start without Nano Banana''])
           | (True, m1, log1) \<Rightarrow>
               (case start_streamlit h m1 of
                  (False, m2, log2) \<Rightarrow>
                    (case stop_processes m2 of
                       (m3, log3) \<Rightarrow>
                         (Some (Inr ()), m3,
                          banner @ log0 @ log1 @ log2 @
                          [Print ''Cannot start without Streamlit''] @ log3))
                | (True, m2, log2) \<Rightarrow>
                    (case monitor_processes Signal_handler (m2\<lparr>running := True\<rparr>) ticks of
                       (Some (Inl KeyboardInterrupt), m3, log3) \<Rightarrow>
                         (case stop_processes m3 of
                            (m4, log4) \<Rightarrow>
                              (Some (Inr ()), m4,
                               banner @ log0 @ log1 @ log2 @ announcement @
                               [Signal_sigint] @ log3 @ log4))
                     | (r, m3, log3) \<Rightarrow>
                         (r, m3,
                          banner @ log0 @ log1 @ log2 @ announcement @
                          [Signal_sigint] @ log3)))))"

text \<open>
  \<open>main\<close> makes a manager and runs it; the script then ends. The exit status of the
  interpreter is 0 after a normal return, the argument of an uncaught \<open>SystemExit\<close>,
  130 after an uncaught \<open>KeyboardInterrupt\<close> (the interpreter ends itself by SIGINT) and
  1 after any other uncaught exception. \<open>None\<close>: still monitoring.
\<close>

definition exit_status :: "exn + unit \<Rightarrow> int" where
  "exit_status r =
     (case r of
        Inr u \<Rightarrow> 0
      | Inl (SystemExit n) \<Rightarrow> n
      | Inl KeyboardInterrupt \<Rightarrow> 130
      | Inl e \<Rightarrow> 1)"

definition main :: "host \<Rightarrow> tick list \<Rightarrow> int option \<times> action list" where
  "main h ticks =
     (case run h ticks new_manager of
        (r, m, log) \<Rightarrow> (map_option exit_status r, log))"

subsection \<open>\<open>stop_processes\<close> and the children\<close>

text \<open>
  Whether a child is alive is a matter of the operating system, not of the manager. A
  table gives the state of every child by its process id. \<open>Popen.terminate()\<close> is the
  method of the standard library: for a child that has exited it does nothing; for a
  child that is alive it sends SIGTERM with \<open>os.kill\<close>, which either raises or delivers
  the signal. \<open>os_kill\<close> is the answer of the kernel: the exception, or the state of the
  child after the delivery (it may have exited, or be alive still).
\<close>

datatype child = Alive | Exited int

definition popen_terminate ::
  "(nat \<Rightarrow> exn + child) \<Rightarrow> nat \<Rightarrow> (nat \<Rightarrow> child) \<Rightarrow> exn option \<times> (nat \<Rightarrow> child)" where
  "popen_terminate os_kill p table =
     (case table p of
        Exited returncode \<Rightarrow> (None, table)
      | Alive \<Rightarrow>
          (case os_kill p of
             Inl e \<Rightarrow> (Some e, table)
           | Inr c \<Rightarrow> (None, table(p := c))))"

text \<open>
  \<open>if self.process: self.process.terminate(); print(message)\<close>: an exception of
  \<open>terminate\<close> leaves before the message is printed.
\<close>

definition terminate_if_set ::
  "(nat \<Rightarrow> exn + child) \<Rightarrow> nat option \<Rightarrow> string \<Rightarrow> (nat \<Rightarrow> child) \<Rightarrow>
     exn option \<times> (nat \<Rightarrow> child) \<times> action list" where
  "terminate_if_set os_kill process message table =
     (case process of
        None \<Rightarrow> (None, table, [])
      | Some p \<Rightarrow>
          (case popen_terminate os_kill p table of
             (Some e, table') \<Rightarrow> (Some e, table', [Terminate p])
           | (None, table') \<Rightarrow> (None, table', [Terminate p, Print message])))"

text \<open>
  \<open>stop_processes\<close> with the table of the children as part of the state, and with the
  exceptions of \<open>terminate\<close> as outcomes. An exception leaves the method before the flag
  is cleared.
\<close>

definition stop_processes_in ::
  "(nat \<Rightarrow> exn + child) \<Rightarrow> manager \<Rightarrow> (nat \<Rightarrow> child) \<Rightarrow>
     (exn + manager) \<times> (nat \<Rightarrow> child) \<times> action list" where
  "stop_processes_in os_kill m table =
     (case terminate_if_set os_kill (nano_banana_process m) ''Nano Banana stopped'' table of
        (Some e, table1, log1) \<Rightarrow>
          (Inl e, table1, [Print ''\<newline>Stopping processes...''] @ log1)
      | (None, table1, log1) \<Rightarrow>
          (case terminate_if_set os_kill (streamlit_process m) ''Streamlit stopped'' table1 of
             (Some e, table2, log2) \<Rightarrow>
               (Inl e, table2, [Print ''\<newline>Stopping processes...''] @ log1 @ log2)
           | (None, table2, log2) \<Rightarrow>
               (Inr (m\<lparr>running := False\<rparr>), table2,
                [Print ''\<newline>Stopping processes...''] @ log1 @ log2)))"

text \<open>
  No supervised process is running: each of the two process objects is unset, or its
  child has exited.
\<close>

definition stopped :: "(nat \<Rightarrow> child) \<Rightarrow> nat option \<Rightarrow> bool" where
  "stopped table process =
     (case process of None \<Rightarrow> True | Some p \<Rightarrow> table p \<noteq> Alive)"

definition all_stopped :: "manager \<Rightarrow> (nat \<Rightarrow> child) \<Rightarrow> bool" where
  "all_stopped m table =
     (stopped table (nano_banana_process m) \<and> stopped table (streamlit_process m))"

text \<open>
  What a call of \<open>terminate()\<close> that returns has done to the child \<open>p\<close>: a child that
  was alive has been sent the signal, and its state is the answer of the kernel; a child
  that had exited is as it was.
\<close>

definition signalled ::
  "(nat \<Rightarrow> exn + child) \<Rightarrow> (nat \<Rightarrow> child) \<Rightarrow> (nat \<Rightarrow> child) \<Rightarrow> nat \<Rightarrow> bool" where
  "signalled os_kill table table' p =
     (case table p of
        Alive \<Rightarrow> os_kill p = Inr (table' p)
      | Exited c \<Rightarrow> table' p = Exited c)"

section \<open>Inputs used in the examples\<close>

definition ids_at :: "nat \<Rightarrow> string list" where
  "ids_at i = [''concept_'' @ str_nat i, ''annotate_'' @ str_nat i]"

definition roman_empire_workflow :: workflow where
  "roman_empire_workflow =
     \<lparr>wf_name = ''Educational Workflow: Roman Empire'',
      wf_nodes =
        [\<lparr>node_type = ''generateImage'', node_id = ''concept_0'',
          node_prompt = ''Create a 3D educational illustration of Roman Empire suitable for High School students'',
          node_position = (100, 100),
          node_data = Some
            [(''prompt'', ''Create a 3D educational illustration of Roman Empire suitable for High School students''),
             (''concept'', ''Main Concept'')]\<rparr>,
         \<lparr>node_type = ''editImage'', node_id = ''annotate_0'',
          node_prompt = ''Add educational annotations: Key terms, Important relationships, Process steps'',
          node_position = (100, 300),
          node_data = Some
            [(''prompt'', ''Add educational annotations: Key terms, Important relationships, Process steps'')]\<rparr>],
      wf_edges = [\<lparr>edge_source = ''concept_0'', edge_target = ''annotate_0''\<rparr>]\<rparr>"

definition gravity :: concept where
  "gravity =
     \<lparr>c_name = Some ''Gravity'', c_description = Some ''Falling bodies'',
      c_image_prompt = Some ''An apple falling from a tree'',
      c_annotations = Some [''g'', ''mass'']\<rparr>"

definition repeated_plan :: analysis where
  "repeated_plan =
     \<lparr>a_topic = Some ''Gravity'', a_subject = Some ''Physics'', a_level = Some ''College'',
      a_concepts = Some [gravity, gravity], a_workflow_steps = None,
      a_animation_frames = None, a_estimated_duration = None\<rparr>"

definition repeated_workflow :: workflow where
  "repeated_workflow =
     \<lparr>wf_name = ''Educational Workflow: Gravity'',
      wf_nodes =
        [concept_node 0 ''An apple falling from a tree'' ''Gravity'',
         annotate_node 0 [''g'', ''mass''],
         concept_node 1 ''An apple falling from a tree'' ''Gravity'',
         annotate_node 1 [''g'', ''mass'']],
      wf_edges = [concept_edge 0, concept_edge 1]\<rparr>"

definition roman_empire_plan :: analysis where
  "roman_empire_plan = analyze_educational_topic ''Roman Empire'' ''History'' ''High School''"

text \<open>Worlds: one where every call succeeds, and four where something fails.\<close>

definition ok_world :: world where
  "ok_world =
     \<lparr>subprocess_run = (\<lambda>cmd. Inr (0, [])),
      named_temporary_file = (\<lambda>script. Inr ''/tmp/tmpq3x8.py''),
      makedirs = (\<lambda>d. None),
      open_write = (\<lambda>p c. None),
      unlink = (\<lambda>p. None),
      st_image = (\<lambda>img caption. None)\<rparr>"

definition no_blender_world :: world where
  "no_blender_world =
     ok_world\<lparr>subprocess_run := (\<lambda>cmd. Inl (OSError ''No such file or directory: blender''))\<rparr>"

definition failing_render_world :: world where
  "failing_render_world =
     ok_world\<lparr>subprocess_run :=
       (\<lambda>cmd. if cmd = [''blender'', ''--version''] then Inr (0, ''Blender 4.0'')
              else Inr (1, ''Error: out of memory''))\<rparr>"

definition no_temp_file_world :: world where
  "no_temp_file_world =
     ok_world\<lparr>named_temporary_file := (\<lambda>script. Inl (OSError ''No space left on device''))\<rparr>"

definition no_blender_full_disk_world :: world where
  "no_blender_full_disk_world =
     no_blender_world\<lparr>open_write := (\<lambda>p c. Some (OSError ''No space left on device''))\<rparr>"

definition gravity_settings :: settings where
  "gravity_settings =
     \<lparr>openai_key = ''sk-test'', google_key = ''g-test'', subject_of = ''Physics'',
      level_of = ''High School'', topic_of = ''Gravity'', duration_of = 120,
      quality_of = ''1080p'', language_of = ''English'',
      generation_method = ''Hybrid (Both)''\<rparr>"

definition gravity_script :: string where
  "gravity_script = create_3d_scene (analyze_topic ''Gravity'' ''Physics'' ''High School'')"

definition mock_images :: "string list" where
  "mock_images = [''mock_image_concept_0.jpg'', ''mock_edited_annotate_0.jpg'']"

definition shown_mock_images :: "event list" where
  "shown_mock_images =
     [St_image ''mock_image_concept_0.jpg'' ''Generated Image 1'',
      St_image ''mock_edited_annotate_0.jpg'' ''Generated Image 2'']"

text \<open>A manager with both processes started, and hosts for the start-up.\<close>

definition both_running :: manager where
  "both_running =
     \<lparr>nano_banana_process = Some 4001, streamlit_process = Some 4002, running = True\<rparr>"

definition good_host :: host where
  "good_host =
     \<lparr>tool_version = (\<lambda>cmd. Inr 0),
      nano_banana_path = ''/srv/ai-apps-collection/nano-banana-image-workflow-nextjs'',
      path_exists = (\<lambda>p. True),
      chdir = (\<lambda>p. None),
      popen = (\<lambda>cmd. if cmd = [''npm'', ''run'', ''dev''] then Inr 4001 else Inr 4002),
      poll_after_start = (\<lambda>p. None)\<rparr>"

definition dying_nano_banana_host :: host where
  "dying_nano_banana_host =
     good_host\<lparr>poll_after_start := (\<lambda>p. if p = 4001 then Some 1 else None)\<rparr>"

definition dying_streamlit_host :: host where
  "dying_streamlit_host =
     good_host\<lparr>poll_after_start := (\<lambda>p. if p = 4002 then Some 1 else None)\<rparr>"

definition tools_checked :: "action list" where
  "tools_checked = [Run_check [''npm'', ''--version''], Run_check [''streamlit'', ''--version'']]"

definition nano_banana_started :: "string \<Rightarrow> nat \<Rightarrow> action list" where
  "nano_banana_started path p =
     [Print ''Starting Nano Banana...'', Chdir path,
      Popen [''npm'', ''run'', ''dev''], Sleep 3, Poll p,
      Print ''Nano Banana started successfully!'',
      Print ''Nano Banana running at: http://localhost:3000'']"

definition streamlit_started :: "nat \<Rightarrow> action list" where
  "streamlit_started p =
     [Print ''Starting 3D Video Educational AI Platform...'',
      Popen streamlit_command, Sleep 3, Poll p,
      Print ''Streamlit started successfully!'',
      Print ''3D Video Edu Platform running at: http://localhost:8501'']"

definition one_pass :: "nat \<Rightarrow> nat \<Rightarrow> action list" where
  "one_pass a b = [Poll a, Poll b, Sleep 1]"

definition both_stopped :: "nat \<Rightarrow> nat \<Rightarrow> action list" where
  "both_stopped a b =
     [Print ''\<newline>Stopping processes...'',
      Terminate a, Print ''Nano Banana stopped'',
      Terminate b, Print ''Streamlit stopped'']"

text \<open>
  Tables of children and answers of the kernel: every child has exited; every child is
  alive; the kernel refuses every signal; every signalled child exits at once.
\<close>

definition all_exited :: "nat \<Rightarrow> child" where
  "all_exited = (\<lambda>p. Exited 0)"

definition all_alive :: "nat \<Rightarrow> child" where
  "all_alive = (\<lambda>p. Alive)"

definition refusing_kill :: "nat \<Rightarrow> exn + child" where
  "refusing_kill = (\<lambda>p. Inl (OSError ''Operation not permitted''))"

definition obeyed_kill :: "nat \<Rightarrow> exn + child" where
  "obeyed_kill = (\<lambda>p. Inr (Exited (- 15)))"

section \<open>Properties of the builder\<close>

lemma digit_char_inj:
  "a < 10 \<Longrightarrow> b < 10 \<Longrightarrow> digit_char a = digit_char b \<Longrightarrow> a = b"
proof -
  assume a: "a < 10" and b: "b < 10" and e: "digit_char a = digit_char b"
  have d: "distinct ''0123456789''" by simp
  have "length ''0123456789'' = 10" by simp
  with a b e d show "a = b"
    unfolding digit_char_def by (metis nth_eq_iff_index_eq)
qed

lemma str_nat_nonempty: "str_nat n \<noteq> []"
  by (subst str_nat.simps) simp

lemma str_nat_length_ge2: "\<not> n < 10 \<Longrightarrow> 2 \<le> length (str_nat n)"
  using str_nat_nonempty [of "n div 10"]
  by (subst str_nat.simps) (cases "str_nat (n div 10)"; simp)

lemma str_nat_inj: "str_nat m = str_nat n \<Longrightarrow> m = n"
proof (induction m arbitrary: n rule: str_nat.induct)
  case (1 m)
  show ?case
  proof (cases "m < 10")
    case m: True
    show ?thesis
    proof (cases "n < 10")
      case True
      with m "1.prems" show ?thesis
        by (simp add: str_nat.simps [of m] str_nat.simps [of n] digit_char_inj)
    next
      case False
      from str_nat_length_ge2 [OF False] m "1.prems" [symmetric] show ?thesis
        by (simp add: str_nat.simps [of m])
    qed
  next
    case m: False
    show ?thesis
    proof (cases "n < 10")
      case True
      from str_nat_length_ge2 [OF m] True "1.prems" show ?thesis
        by (simp add: str_nat.simps [of n])
    next
      case False
      from m False "1.prems"
      have e: "str_nat (m div 10) = str_nat (n div 10)"
        and d: "digit_char (m mod 10) = digit_char (n mod 10)"
        by (simp_all add: str_nat.simps [of m] str_nat.simps [of n])
      from "1.IH" [OF m e] have q: "m div 10 = n div 10" .
      from d have r: "m mod 10 = n mod 10" by (intro digit_char_inj) simp_all
      from q r show ?thesis by (metis div_mult_mod_eq)
    qed
  qed
qed

lemma add_concepts_shape:
  "add_concepts ics w = Inr w' \<Longrightarrow>
     wf_name w' = wf_name w \<and>
     node_ids w' = node_ids w @ concat (map (\<lambda>p. ids_at (fst p)) ics) \<and>
     wf_edges w' = wf_edges w @ map (\<lambda>p. concept_edge (fst p)) ics"
proof (induction ics w rule: add_concepts.induct)
  case (1 w)
  then show ?case by simp
next
  case (2 i c rest w)
  then show ?case
    by (auto split: option.splits
        simp: node_ids_def ids_at_def concept_node_def annotate_node_def)
qed

lemma ids_at_disjoint: "i \<noteq> j \<Longrightarrow> set (ids_at i) \<inter> set (ids_at j) = {}"
  by (auto simp: ids_at_def dest: str_nat_inj)

lemma distinct_ids_at: "distinct (ids_at i)"
  by (simp add: ids_at_def)

lemma distinct_concat_ids:
  "distinct is \<Longrightarrow> distinct (concat (map ids_at is))"
proof (induction "is")
  case Nil
  then show ?case by simp
next
  case (Cons i "is")
  then show ?case
    using ids_at_disjoint [of i] by (fastforce simp: distinct_ids_at)
qed

lemma create_shape:
  assumes "create_nano_banana_workflow self a = Inr w"
  shows "\<exists>topic cs. a_topic a = Some topic \<and> a_concepts a = Some cs \<and>
           wf_name w = ''Educational Workflow: '' @ topic \<and>
           node_ids w = concat (map ids_at [0..<length cs]) \<and>
           wf_edges w = map concept_edge [0..<length cs]"
proof -
  from assms obtain topic cs where t: "a_topic a = Some topic" and c: "a_concepts a = Some cs"
    and r: "add_concepts (enumerate 0 cs)
              \<lparr>wf_name = ''Educational Workflow: '' @ topic, wf_nodes = [], wf_edges = []\<rparr> = Inr w"
    by (auto simp: create_nano_banana_workflow_def split: sum.splits option.splits)
  have m: "map (\<lambda>p. f (fst p)) (enumerate 0 cs) = map f [0..<length cs]" for f :: "nat \<Rightarrow> 'b"
  proof -
    have "map f (map fst (enumerate 0 cs)) = map f [0..<length cs]"
      by simp
    then show ?thesis
      unfolding map_map o_def .
  qed
  from add_concepts_shape [OF r] t c show ?thesis
    by (simp add: m node_ids_def)
qed

lemma add_concepts_complete:
  "list_all complete_concept (map snd ics) \<Longrightarrow> \<exists>w'. add_concepts ics w = Inr w'"
  by (induction ics w rule: add_concepts.induct) (auto simp: complete_concept_def)

lemma create_returns:
  assumes "map_of (workflow_templates self) ''physics'' \<noteq> None" and "complete_analysis a"
  shows "\<exists>w. create_nano_banana_workflow self a = Inr w"
proof -
  from assms(2) obtain topic cs where t: "a_topic a = Some topic" and c: "a_concepts a = Some cs"
    and l: "list_all complete_concept cs"
    by (auto simp: complete_analysis_def split: option.splits)
  have "map snd (enumerate 0 cs) = cs" by (simp add: enumerate_eq_zip)
  with l add_concepts_complete [of "enumerate 0 cs"] assms(1) t c show ?thesis
    by (auto simp: create_nano_banana_workflow_def resolve_template_def Let_def)
qed

text \<open>
  Claim C5. The node identifiers of a built workflow are pairwise distinct, whatever the
  names of the concepts are: the identifiers of the pass with index \<open>i\<close> are \<open>concept_i\<close>
  and \<open>annotate_i\<close>, the index counts up from 0, and decimal numerals of different
  numbers differ.
\<close>

theorem node_ids_distinct:
  "create_nano_banana_workflow self a = Inr w \<Longrightarrow> distinct (node_ids w)"
proof -
  assume "create_nano_banana_workflow self a = Inr w"
  from create_shape [OF this] obtain cs :: "concept list"
    where "node_ids w = concat (map ids_at [0..<length cs])"
    by auto
  then show ?thesis by (simp add: distinct_concat_ids)
qed

text \<open>
  Claim C6. Referential integrity: in every workflow the builder returns, the source and
  the target of every edge are identifiers of nodes of that workflow; the same holds in
  each registered workflow template.
\<close>

theorem edges_reference_nodes:
  "(create_nano_banana_workflow self a = Inr w \<longrightarrow> edges_resolve w) \<and>
   list_all (\<lambda>kt. edges_resolve (snd kt)) load_workflow_templates"
proof
  show "create_nano_banana_workflow self a = Inr w \<longrightarrow> edges_resolve w"
  proof
    assume "create_nano_banana_workflow self a = Inr w"
    from create_shape [OF this] obtain cs :: "concept list"
      where n: "node_ids w = concat (map ids_at [0..<length cs])"
        and e: "wf_edges w = map concept_edge [0..<length cs]"
      by auto
    show "edges_resolve w"
      unfolding edges_resolve_def n e
      by (auto simp: list_all_iff concept_edge_def ids_at_def)
  qed
next
  show "list_all (\<lambda>kt. edges_resolve (snd kt)) load_workflow_templates"
    by (simp add: load_workflow_templates_def edges_resolve_def node_ids_def)
qed

lemma physics_registered:
  "map_of load_workflow_templates ''physics'' = Some (snd (hd load_workflow_templates))"
  by (simp add: load_workflow_templates_def)

text \<open>
  Claim C1, as the code has it. For a plan whose lowered subject is no key of the
  template table, the builder takes the physics template, raises no exception on account
  of the subject, and returns what it returns for the same plan with the subject
  \<open>Physics\<close>; a plan that carries every key is turned into a workflow. The look-up of
  examples by subject likewise answers an unknown subject with the empty dictionary.
\<close>

theorem unknown_subject_falls_back_to_physics:
  assumes "map_of load_workflow_templates
             (lower (case a_subject a of None \<Rightarrow> ''general'' | Some s \<Rightarrow> s)) = None"
    and "workflow_templates self = load_workflow_templates"
  shows "map_of load_workflow_templates ''physics'' = Some (snd (hd load_workflow_templates)) \<and>
         resolve_template self a = Inr (snd (hd load_workflow_templates)) \<and>
         (complete_analysis a \<longrightarrow> (\<exists>w. create_nano_banana_workflow self a = Inr w)) \<and>
         create_nano_banana_workflow self a =
           create_nano_banana_workflow self (a\<lparr>a_subject := Some ''Physics''\<rparr>) \<and>
         (all_examples unknown = None \<longrightarrow>
            get_example_by_subject all_examples unknown = (Map.empty :: string \<rightharpoonup> 'v))"
proof -
  let ?p = "snd (hd load_workflow_templates)"
  have p: "map_of (workflow_templates self) ''physics'' = Some ?p"
    using assms(2) physics_registered by simp
  have r: "resolve_template self a = Inr ?p"
    using assms p by (simp add: resolve_template_def)
  have l: "lower ''Physics'' = ''physics''" by code_simp
  have r': "resolve_template self (a\<lparr>a_subject := Some ''Physics''\<rparr>) = Inr ?p"
    using p by (simp add: resolve_template_def l)
  have c: "complete_analysis a \<longrightarrow> (\<exists>w. create_nano_banana_workflow self a = Inr w)"
    using create_returns [of self a] p by simp
  have "create_nano_banana_workflow self a =
          create_nano_banana_workflow self (a\<lparr>a_subject := Some ''Physics''\<rparr>)"
    by (simp add: create_nano_banana_workflow_def r r' cong: option.case_cong)
  with physics_registered r c show ?thesis
    by (simp add: get_example_by_subject_def)
qed
lemma lower_History: "lower ''History'' = ''history''"
  by code_simp

lemma create_roman_empire:
  "create_nano_banana_workflow new_platform
     (analyze_educational_topic ''Roman Empire'' ''History'' ''High School'') =
   Inr roman_empire_workflow"
  by (simp add: create_nano_banana_workflow_def analyze_educational_topic_def
      new_platform_def resolve_template_def load_workflow_templates_def lower_History
      concept_node_def annotate_node_def concept_edge_def enumerate_eq_zip
      str_nat.simps digit_char_def roman_empire_workflow_def)

text \<open>
  Claim C1 as stated fails: \<open>History\<close> is no key of the template table, and the builder
  returns a workflow for it.
\<close>

theorem unknown_subject_counterexample:
  "map_of load_workflow_templates (lower ''History'') = None \<and>
   create_nano_banana_workflow new_platform
     (analyze_educational_topic ''Roman Empire'' ''History'' ''High School'') =
   Inr roman_empire_workflow"
  by (simp add: create_roman_empire lower_History load_workflow_templates_def)

lemma lower_Physics: "lower ''Physics'' = ''physics''"
  by code_simp

lemma create_repeated:
  "create_nano_banana_workflow new_platform repeated_plan = Inr repeated_workflow"
  by (simp add: create_nano_banana_workflow_def repeated_plan_def gravity_def
      new_platform_def resolve_template_def load_workflow_templates_def lower_Physics
      enumerate_eq_zip repeated_workflow_def upt_rec)

theorem node_ids_distinct_witness:
  "create_nano_banana_workflow new_platform repeated_plan = Inr repeated_workflow \<and>
   node_ids repeated_workflow = [''concept_0'', ''annotate_0'', ''concept_1'', ''annotate_1''] \<and>
   distinct (node_ids repeated_workflow)"
  using node_ids_distinct [OF create_repeated] create_repeated
  by (simp add: repeated_workflow_def node_ids_def concept_node_def annotate_node_def
      str_nat.simps digit_char_def)

theorem edges_reference_nodes_witness:
  "create_nano_banana_workflow new_platform repeated_plan = Inr repeated_workflow \<and>
   edges_resolve repeated_workflow \<and>
   list_all (\<lambda>kt. edges_resolve (snd kt)) load_workflow_templates"
  using edges_reference_nodes [of new_platform repeated_plan repeated_workflow] create_repeated
  by simp

theorem unknown_subject_falls_back_to_physics_witness:
  "map_of load_workflow_templates ''physics'' = Some (snd (hd load_workflow_templates)) \<and>
   resolve_template new_platform roman_empire_plan = Inr (snd (hd load_workflow_templates)) \<and>
   (\<exists>w. create_nano_banana_workflow new_platform roman_empire_plan = Inr w) \<and>
   create_nano_banana_workflow new_platform roman_empire_plan =
     create_nano_banana_workflow new_platform (roman_empire_plan\<lparr>a_subject := Some ''Physics''\<rparr>) \<and>
   get_example_by_subject (Map.empty :: string \<rightharpoonup> (string \<rightharpoonup> nat)) ''Geography'' = Map.empty"
proof -
  have h1: "map_of load_workflow_templates
              (lower (case a_subject roman_empire_plan of None \<Rightarrow> ''general'' | Some s \<Rightarrow> s)) = None"
    by (simp add: roman_empire_plan_def analyze_educational_topic_def lower_History
        load_workflow_templates_def)
  have h2: "workflow_templates new_platform = load_workflow_templates"
    by (simp add: new_platform_def)
  have h3: "complete_analysis roman_empire_plan"
    by (simp add: roman_empire_plan_def analyze_educational_topic_def complete_analysis_def
        complete_concept_def)
  from unknown_subject_falls_back_to_physics
         [OF h1 h2, of "Map.empty :: string \<rightharpoonup> (string \<rightharpoonup> nat)" "''Geography''"] h3
  show ?thesis
    by blast
qed

section \<open>Properties of the generation pipeline\<close>

lemma head_part:
  "rev (dropWhile (\<lambda>c. c \<noteq> s) (rev (a @ s # t))) =
   a @ s # rev (dropWhile (\<lambda>c. c \<noteq> s) (rev t))"
  by (simp add: dropWhile_append dropWhile_eq_Nil_conv)

lemma rstrip_part:
  assumes "a \<noteq> []" and "last a \<noteq> s"
  shows "rev (dropWhile (\<lambda>c. c = s) (rev (a @ b))) =
         a @ rev (dropWhile (\<lambda>c. c = s) (rev b))"
  using assms
  by (cases a rule: rev_cases) (simp_all add: dropWhile_append dropWhile_eq_Nil_conv)

lemma dirname_under:
  assumes ne: "out \<noteq> []" and ns: "CHR ''/'' \<notin> set out"
  shows "dirname (out @ CHR ''/'' # t) =
         out @ rev (dropWhile (\<lambda>c. c = CHR ''/'')
                      (rev (CHR ''/'' # rev (dropWhile (\<lambda>c. c \<noteq> CHR ''/'') (rev t)))))"
proof -
  let ?h = "rev (dropWhile (\<lambda>c. c \<noteq> CHR ''/'') (rev t))"
  have h: "rev (dropWhile (\<lambda>c. c \<noteq> CHR ''/'') (rev (out @ CHR ''/'' # t))) = out @ CHR ''/'' # ?h"
    by (rule head_part)
  from ne ns have l: "last out \<noteq> CHR ''/''"
    using last_in_set by metis
  from ne ns have "hd out \<noteq> CHR ''/''"
    using hd_in_set by metis
  with ne have nr: "out @ CHR ''/'' # ?h \<noteq> replicate (length (out @ CHR ''/'' # ?h)) (CHR ''/'')"
    by (cases out) auto
  have "dirname (out @ CHR ''/'' # t) =
          rev (dropWhile (\<lambda>c. c = CHR ''/'') (rev (out @ CHR ''/'' # ?h)))"
    unfolding dirname_def Let_def h using nr ne by simp
  also have "\<dots> = out @ rev (dropWhile (\<lambda>c. c = CHR ''/'') (rev (CHR ''/'' # ?h)))"
    by (rule rstrip_part [OF ne l])
  finally show ?thesis .
qed

lemma output_slash: "''output/'' @ t = ''output'' @ CHR ''/'' # t"
  by simp

lemma dirname_video_path_prefix:
  "take 6 (dirname (nano_banana_video_path topic)) = ''output''"
proof -
  have "\<exists>r. dirname (''output'' @ CHR ''/'' # replace_space topic @ ''_nano_banana_video.mp4'') =
          ''output'' @ r"
    by (subst dirname_under) simp_all
  then obtain r where "dirname (nano_banana_video_path topic) = ''output'' @ r"
    unfolding nano_banana_video_path_def output_slash by blast
  then show ?thesis by simp
qed

lemma dirname_video_path_flat:
  assumes "CHR ''/'' \<notin> set topic"
  shows "dirname (nano_banana_video_path topic) = ''output''"
proof -
  let ?t = "replace_space topic @ ''_nano_banana_video.mp4''"
  from assms have "CHR ''/'' \<notin> set ?t"
    by (auto simp: replace_space_def)
  then have d: "dropWhile (\<lambda>c. c \<noteq> CHR ''/'') (rev ?t) = []"
    unfolding dropWhile_eq_Nil_conv by (metis set_rev)
  have "dirname (''output'' @ CHR ''/'' # ?t) =
          ''output'' @ rev (dropWhile (\<lambda>c. c = CHR ''/'')
             (rev (CHR ''/'' # rev (dropWhile (\<lambda>c. c \<noteq> CHR ''/'') (rev ?t)))))"
    by (rule dirname_under) simp_all
  also have "\<dots> = ''output''"
    unfolding d by simp
  finally show ?thesis
    unfolding nano_banana_video_path_def output_slash .
qed

lemma images_of_analysis:
  assumes "map_of (workflow_templates self) ''physics'' \<noteq> None"
  shows "\<exists>wf. create_nano_banana_workflow self (analyze_educational_topic topic subject level) = Inr wf \<and>
           execute_nano_banana_workflow wf = mock_images"
  using assms
  by (auto simp: create_nano_banana_workflow_def resolve_template_def
      analyze_educational_topic_def enumerate_eq_zip execute_nano_banana_workflow_def
      mock_images_of_def concept_node_def annotate_node_def mock_images_def
      str_nat.simps digit_char_def)

lemma generate_educational_video_eq:
  assumes "map_of (workflow_templates self) ''physics'' \<noteq> None"
  shows "generate_educational_video w self topic subject level =
           (case show_images w (enumerate 0 mock_images) of
              (Inl e, log) \<Rightarrow> (Inl e, log)
            | (Inr u, log) \<Rightarrow>
                (case create_video_from_images w mock_images topic of
                   (r, log') \<Rightarrow> (r, log @ log')))"
proof -
  from images_of_analysis [OF assms, of topic subject level] obtain wf
    where "create_nano_banana_workflow self (analyze_educational_topic topic subject level) = Inr wf"
      and "execute_nano_banana_workflow wf = mock_images"
    by blast
  then show ?thesis
    by (simp add: generate_educational_video_def)
qed

lemma create_video_from_images_cases:
  "create_video_from_images w images topic = (r, log) \<Longrightarrow>
     (r = Inr (nano_banana_video_path topic) \<or> (\<exists>e. r = Inl e)) \<and>
     (\<forall>q c. Open_write q c \<in> set log \<longrightarrow>
        q = nano_banana_video_path topic \<and> c = ''Mock video content'') \<and>
     (r = Inr (nano_banana_video_path topic) \<longrightarrow>
        Open_write (nano_banana_video_path topic) ''Mock video content'' \<in> set log)"
  by (auto simp: create_video_from_images_def Let_def split: option.splits)

lemma show_images_no_write:
  "show_images w ims = (r, log) \<Longrightarrow> Open_write q c \<notin> set log"
proof (induction w ims arbitrary: r log rule: show_images.induct)
  case (1 w)
  then show ?case by simp
next
  case (2 w i img rest)
  then show ?case
    by (auto simp: Let_def split: option.splits prod.splits)
qed

lemma generate_educational_video_mock:
  assumes "generate_educational_video w self topic subject level = (Inr p, log)"
  shows "p = nano_banana_video_path topic \<and>
         Open_write p ''Mock video content'' \<in> set log \<and>
         (\<forall>q c. Open_write q c \<in> set log \<longrightarrow> q = p \<and> c = ''Mock video content'')"
proof -
  from assms obtain wf l1 l2 where
    s: "show_images w (enumerate 0 (execute_nano_banana_workflow wf)) = (Inr (), l1)" and
    c: "create_video_from_images w (execute_nano_banana_workflow wf) topic = (Inr p, l2)" and
    l: "log = l1 @ l2"
    by (auto simp: generate_educational_video_def Let_def split: sum.splits prod.splits)
  from create_video_from_images_cases [OF c] show_images_no_write [OF s] l
  show ?thesis by auto
qed

text \<open>
  Claim C10. For every topic and every list of images, also the empty one, the
  video-assembly step asks for the directory of the output file to be made, writes the
  text \<open>Mock video content\<close> to \<open>output/<topic, spaces as underscores>_nano_banana_video.mp4\<close>
  and returns that path, provided the two calls into the file system succeed. The
  directory is \<open>output\<close> for a topic without a slash and lies under \<open>output\<close> in any
  case. Whenever the image-workflow backend returns a path, it is that path, the mock
  text has been written to it, and nothing else has been written.
\<close>

theorem mock_video_artifact:
  "(makedirs w (dirname (nano_banana_video_path topic)) = None \<and>
    open_write w (nano_banana_video_path topic) ''Mock video content'' = None \<longrightarrow>
      create_video_from_images w images topic =
        (Inr (''output/'' @ replace_space topic @ ''_nano_banana_video.mp4''),
         [Makedirs (dirname (nano_banana_video_path topic)),
          Open_write (nano_banana_video_path topic) ''Mock video content''])) \<and>
   take 6 (dirname (nano_banana_video_path topic)) = ''output'' \<and>
   (CHR ''/'' \<notin> set topic \<longrightarrow> dirname (nano_banana_video_path topic) = ''output'') \<and>
   (generate_educational_video w self topic subject level = (Inr p, log) \<longrightarrow>
      p = nano_banana_video_path topic \<and>
      Open_write p ''Mock video content'' \<in> set log \<and>
      (\<forall>q c. Open_write q c \<in> set log \<longrightarrow> q = p \<and> c = ''Mock video content''))"
proof (intro conjI impI)
  assume "makedirs w (dirname (nano_banana_video_path topic)) = None \<and>
          open_write w (nano_banana_video_path topic) ''Mock video content'' = None"
  then show "create_video_from_images w images topic =
        (Inr (''output/'' @ replace_space topic @ ''_nano_banana_video.mp4''),
         [Makedirs (dirname (nano_banana_video_path topic)),
          Open_write (nano_banana_video_path topic) ''Mock video content''])"
    by (simp add: create_video_from_images_def Let_def)
      (simp add: nano_banana_video_path_def)
next
  show "take 6 (dirname (nano_banana_video_path topic)) = ''output''"
    by (rule dirname_video_path_prefix)
next
  assume "CHR ''/'' \<notin> set topic"
  then show "dirname (nano_banana_video_path topic) = ''output''"
    by (rule dirname_video_path_flat)
next
  assume g: "generate_educational_video w self topic subject level = (Inr p, log)"
  from generate_educational_video_mock [OF g]
  show "p = nano_banana_video_path topic"
    and "Open_write p ''Mock video content'' \<in> set log"
    and "\<forall>q c. Open_write q c \<in> set log \<longrightarrow> q = p \<and> c = ''Mock video content''"
    by blast+
qed

lemma show_mock_images_ok:
  "st_image w ''mock_image_concept_0.jpg'' ''Generated Image 1'' = None \<Longrightarrow>
   st_image w ''mock_edited_annotate_0.jpg'' ''Generated Image 2'' = None \<Longrightarrow>
   show_images w (enumerate 0 mock_images) = (Inr (), shown_mock_images)"
  by (simp add: mock_images_def shown_mock_images_def enumerate_eq_zip upt_rec
      str_nat.simps digit_char_def)

lemma water_cycle_path:
  "nano_banana_video_path ''Water cycle'' = ''output/Water_cycle_nano_banana_video.mp4''"
  by (simp add: nano_banana_video_path_def replace_space_def)

lemma water_cycle_video:
  "generate_educational_video ok_world new_platform ''Water cycle'' ''Geography'' ''College'' =
     (Inr ''output/Water_cycle_nano_banana_video.mp4'',
      shown_mock_images @
      [Makedirs ''output'',
       Open_write ''output/Water_cycle_nano_banana_video.mp4'' ''Mock video content''])"
proof -
  have p: "map_of (workflow_templates new_platform) ''physics'' \<noteq> None"
    by (simp add: new_platform_def load_workflow_templates_def)
  have s: "show_images ok_world (enumerate 0 mock_images) = (Inr (), shown_mock_images)"
    by (rule show_mock_images_ok) (simp_all add: ok_world_def)
  have d: "dirname ''output/Water_cycle_nano_banana_video.mp4'' = ''output''"
    by (simp add: dirname_def)
  have m: "makedirs ok_world ''output'' = None"
    and o: "open_write ok_world ''output/Water_cycle_nano_banana_video.mp4''
              ''Mock video content'' = None"
    by (simp_all add: ok_world_def)
  show ?thesis
    by (simp add: generate_educational_video_eq [OF p] s create_video_from_images_def
        water_cycle_path d m o Let_def)
qed

theorem mock_video_artifact_witness:
  "makedirs ok_world (dirname (nano_banana_video_path ''Water cycle'')) = None \<and>
   open_write ok_world (nano_banana_video_path ''Water cycle'') ''Mock video content'' = None \<and>
   CHR ''/'' \<notin> set ''Water cycle'' \<and>
   create_video_from_images ok_world [] ''Water cycle'' =
     (Inr ''output/Water_cycle_nano_banana_video.mp4'',
      [Makedirs ''output'',
       Open_write ''output/Water_cycle_nano_banana_video.mp4'' ''Mock video content'']) \<and>
   generate_educational_video ok_world new_platform ''Water cycle'' ''Geography'' ''College'' =
     (Inr ''output/Water_cycle_nano_banana_video.mp4'',
      shown_mock_images @
      [Makedirs ''output'',
       Open_write ''output/Water_cycle_nano_banana_video.mp4'' ''Mock video content'']) \<and>
   Open_write ''output/Water_cycle_nano_banana_video.mp4'' ''Mock video content''
     \<in> set (shown_mock_images @
      [Makedirs ''output'',
       Open_write ''output/Water_cycle_nano_banana_video.mp4'' ''Mock video content''])"
proof -
  have h: "makedirs ok_world (dirname (nano_banana_video_path ''Water cycle'')) = None \<and>
           open_write ok_world (nano_banana_video_path ''Water cycle'') ''Mock video content'' = None"
    by (simp add: ok_world_def)
  have f: "CHR ''/'' \<notin> set ''Water cycle''"
    by simp
  from mock_video_artifact
    [of ok_world "''Water cycle''" "[]" new_platform "''Geography''" "''College''"
        "''output/Water_cycle_nano_banana_video.mp4''"
        "shown_mock_images @
           [Makedirs ''output'',
            Open_write ''output/Water_cycle_nano_banana_video.mp4'' ''Mock video content'']"]
    h f water_cycle_video
  show ?thesis
    by (simp add: water_cycle_path replace_space_def)
qed

lemma execute_blender_script_run:
  assumes "named_temporary_file w script = Inr sp"
    and "makedirs w (''output/'' @ replace_space topic) = None"
    and "subprocess_run w (blender_command sp (''output/'' @ replace_space topic)) = Inr (rc, err)"
    and "unlink w sp = None"
  shows "execute_blender_script w script topic =
           (Inr (if rc = 0 then Some (''output/'' @ replace_space topic @ ''/final_video.mp4'')
                 else None),
            [Named_temporary_file script,
             Makedirs (''output/'' @ replace_space topic),
             Subprocess_run (blender_command sp (''output/'' @ replace_space topic)),
             Unlink sp])"
  using assms by (simp add: execute_blender_script_def run_blender_def Let_def)

lemma generate_video_available:
  "blender_available w \<Longrightarrow>
   generate_video w platform topic script =
     (fst (execute_blender_script w script topic),
      Subprocess_run [''blender'', ''--version''] # snd (execute_blender_script w script topic))"
  by (simp add: generate_video_def split: prod.splits)

lemma generate_video_unavailable:
  "\<not> blender_available w \<Longrightarrow>
   generate_educational_video w (nano_banana_platform platform) topic ''Physics'' ''High School''
     = (r, log) \<Longrightarrow>
   generate_video w platform topic script =
     (map_sum id Some r, Subprocess_run [''blender'', ''--version''] # log)"
  by (simp add: generate_video_def)

text \<open>
  Claim C3. First success wins. In the Hybrid branch, when Blender is available and the
  3D attempt succeeds (the script is written, the directory made, Blender exits with
  status 0 and the script is removed), the result is the path of the Blender video and
  the run consists of the calls of the 3D backend only: the image-workflow backend is
  not called. When Blender is not available and the image-workflow backend returns a
  path, the result is that path and the backend has been called once.
\<close>

theorem first_success_wins:
  "(blender_available w \<and>
    named_temporary_file w
      (create_3d_scene (analyze_topic (topic_of s) (subject_of s) (level_of s))) = Inr sp \<and>
    makedirs w (''output/'' @ replace_space (topic_of s)) = None \<and>
    subprocess_run w (blender_command sp (''output/'' @ replace_space (topic_of s)))
      = Inr (0, err) \<and>
    unlink w sp = None \<longrightarrow>
      video_path_hybrid w platform s =
        (Inr (Some (''output/'' @ replace_space (topic_of s) @ ''/final_video.mp4'')),
         [Subprocess_run [''blender'', ''--version''],
          Named_temporary_file
            (create_3d_scene (analyze_topic (topic_of s) (subject_of s) (level_of s))),
          Makedirs (''output/'' @ replace_space (topic_of s)),
          Subprocess_run (blender_command sp (''output/'' @ replace_space (topic_of s))),
          Unlink sp])) \<and>
   (\<not> blender_available w \<and>
    generate_educational_video w (nano_banana_platform platform) (topic_of s)
      ''Physics'' ''High School'' = (Inr p, log) \<longrightarrow>
      video_path_hybrid w platform s =
        (Inr (Some p), Subprocess_run [''blender'', ''--version''] # log))"
proof (intro conjI impI)
  let ?script = "create_3d_scene (analyze_topic (topic_of s) (subject_of s) (level_of s))"
  assume a: "blender_available w \<and>
    named_temporary_file w ?script = Inr sp \<and>
    makedirs w (''output/'' @ replace_space (topic_of s)) = None \<and>
    subprocess_run w (blender_command sp (''output/'' @ replace_space (topic_of s)))
      = Inr (0, err) \<and>
    unlink w sp = None"
  then have "execute_blender_script w ?script (topic_of s) =
           (Inr (Some (''output/'' @ replace_space (topic_of s) @ ''/final_video.mp4'')),
            [Named_temporary_file ?script,
             Makedirs (''output/'' @ replace_space (topic_of s)),
             Subprocess_run (blender_command sp (''output/'' @ replace_space (topic_of s))),
             Unlink sp])"
    using execute_blender_script_run [of w ?script sp "topic_of s" 0 err] by simp
  with a show "video_path_hybrid w platform s =
        (Inr (Some (''output/'' @ replace_space (topic_of s) @ ''/final_video.mp4'')),
         [Subprocess_run [''blender'', ''--version''],
          Named_temporary_file ?script,
          Makedirs (''output/'' @ replace_space (topic_of s)),
          Subprocess_run (blender_command sp (''output/'' @ replace_space (topic_of s))),
          Unlink sp])"
    by (simp add: video_path_hybrid_def video_path_3d_def generate_video_available)
next
  assume a: "\<not> blender_available w \<and>
    generate_educational_video w (nano_banana_platform platform) (topic_of s)
      ''Physics'' ''High School'' = (Inr p, log)"
  then show "video_path_hybrid w platform s =
        (Inr (Some p), Subprocess_run [''blender'', ''--version''] # log)"
    by (simp add: video_path_hybrid_def video_path_3d_def
        generate_video_unavailable [of w platform "topic_of s" "Inr p" log])
qed

text \<open>
  Claim C2, as the code has it. The candidates are tried in the fixed order 3D, then
  image workflow. When the Blender probe does not return status 0, \<open>generate_video\<close>
  hands the request to the image-workflow backend and returns its outcome. In the Hybrid
  branch, when Blender is available and the 3D attempt raises an exception, the
  image-workflow backend is attempted next and its outcome is the result. No failure is
  recorded and no list of attempts is returned: when the image-workflow backend raises
  after the probe has failed, \<open>generate_video\<close> raises that exception and nothing else.
\<close>

theorem fallback_on_unavailable_or_exception:
  "(\<not> blender_available w \<and>
    generate_educational_video w (nano_banana_platform platform) topic
      ''Physics'' ''High School'' = (r, log) \<longrightarrow>
      generate_video w platform topic script =
        (map_sum id Some r, Subprocess_run [''blender'', ''--version''] # log)) \<and>
   (blender_available w \<and>
    execute_blender_script w
      (create_3d_scene (analyze_topic (topic_of s) (subject_of s) (level_of s))) (topic_of s)
      = (Inl e, log1) \<and>
    generate_educational_video w (nano_banana_platform platform) (topic_of s)
      (subject_of s) (level_of s) = (r2, log2) \<longrightarrow>
      video_path_hybrid w platform s =
        (map_sum id Some r2, Subprocess_run [''blender'', ''--version''] # log1 @ log2)) \<and>
   (\<not> blender_available w \<and>
    generate_educational_video w (nano_banana_platform platform) topic
      ''Physics'' ''High School'' = (Inl e', log') \<longrightarrow>
      generate_video w platform topic script =
        (Inl e', Subprocess_run [''blender'', ''--version''] # log'))"
proof (intro conjI impI)
  assume "\<not> blender_available w \<and>
    generate_educational_video w (nano_banana_platform platform) topic
      ''Physics'' ''High School'' = (r, log)"
  then show "generate_video w platform topic script =
        (map_sum id Some r, Subprocess_run [''blender'', ''--version''] # log)"
    by (simp add: generate_video_unavailable)
next
  let ?script = "create_3d_scene (analyze_topic (topic_of s) (subject_of s) (level_of s))"
  assume "blender_available w \<and>
    execute_blender_script w ?script (topic_of s) = (Inl e, log1) \<and>
    generate_educational_video w (nano_banana_platform platform) (topic_of s)
      (subject_of s) (level_of s) = (r2, log2)"
  then show "video_path_hybrid w platform s =
        (map_sum id Some r2, Subprocess_run [''blender'', ''--version''] # log1 @ log2)"
    by (simp add: video_path_hybrid_def video_path_3d_def generate_video_available
        video_path_nano_banana_def)
next
  assume "\<not> blender_available w \<and>
    generate_educational_video w (nano_banana_platform platform) topic
      ''Physics'' ''High School'' = (Inl e', log')"
  then show "generate_video w platform topic script =
        (Inl e', Subprocess_run [''blender'', ''--version''] # log')"
    by (simp add: generate_video_unavailable [where r = "Inl e'"])
qed

lemma gravity_video:
  assumes "st_image w ''mock_image_concept_0.jpg'' ''Generated Image 1'' = None"
    and "st_image w ''mock_edited_annotate_0.jpg'' ''Generated Image 2'' = None"
    and "makedirs w ''output'' = None"
    and "open_write w ''output/Gravity_nano_banana_video.mp4'' ''Mock video content'' = None"
  shows "generate_educational_video w new_platform ''Gravity'' subject level =
     (Inr ''output/Gravity_nano_banana_video.mp4'',
      shown_mock_images @
      [Makedirs ''output'',
       Open_write ''output/Gravity_nano_banana_video.mp4'' ''Mock video content''])"
proof -
  have p: "map_of (workflow_templates new_platform) ''physics'' \<noteq> None"
    by (simp add: new_platform_def load_workflow_templates_def)
  have s: "show_images w (enumerate 0 mock_images) = (Inr (), shown_mock_images)"
    using assms(1,2) by (rule show_mock_images_ok)
  have n: "nano_banana_video_path ''Gravity'' = ''output/Gravity_nano_banana_video.mp4''"
    by (simp add: nano_banana_video_path_def replace_space_def)
  have d: "dirname ''output/Gravity_nano_banana_video.mp4'' = ''output''"
    by (simp add: dirname_def)
  show ?thesis
    by (simp add: generate_educational_video_eq [OF p] s create_video_from_images_def
        n d assms(3,4) Let_def)
qed

lemma gravity_output_dir: "''output/'' @ replace_space ''Gravity'' = ''output/Gravity''"
  by (simp add: replace_space_def)

lemma gravity_settings_simps:
  "topic_of gravity_settings = ''Gravity''"
  "subject_of gravity_settings = ''Physics''"
  "level_of gravity_settings = ''High School''"
  "generation_method gravity_settings = ''Hybrid (Both)''"
  by (simp_all add: gravity_settings_def)

lemma ok_world_available: "blender_available ok_world"
  by (simp add: blender_available_def ok_world_def)

lemma no_blender_world_unavailable: "\<not> blender_available no_blender_world"
  by (simp add: blender_available_def no_blender_world_def ok_world_def)

lemma failing_render_world_available: "blender_available failing_render_world"
  by (simp add: blender_available_def failing_render_world_def ok_world_def)

lemma no_temp_file_world_available: "blender_available no_temp_file_world"
  by (simp add: blender_available_def no_temp_file_world_def ok_world_def)

lemma no_blender_world_video:
  "generate_educational_video no_blender_world new_platform ''Gravity'' subject level =
     (Inr ''output/Gravity_nano_banana_video.mp4'',
      shown_mock_images @
      [Makedirs ''output'',
       Open_write ''output/Gravity_nano_banana_video.mp4'' ''Mock video content''])"
  by (rule gravity_video) (simp_all add: no_blender_world_def ok_world_def)

lemma no_temp_file_world_video:
  "generate_educational_video no_temp_file_world new_platform ''Gravity'' subject level =
     (Inr ''output/Gravity_nano_banana_video.mp4'',
      shown_mock_images @
      [Makedirs ''output'',
       Open_write ''output/Gravity_nano_banana_video.mp4'' ''Mock video content''])"
  by (rule gravity_video) (simp_all add: no_temp_file_world_def ok_world_def)

lemma nano_of_new_enhanced: "nano_banana_platform new_enhanced_platform = new_platform"
  by (simp add: new_enhanced_platform_def)

theorem first_success_wins_witness:
  "blender_available ok_world \<and>
   named_temporary_file ok_world gravity_script = Inr ''/tmp/tmpq3x8.py'' \<and>
   makedirs ok_world ''output/Gravity'' = None \<and>
   subprocess_run ok_world (blender_command ''/tmp/tmpq3x8.py'' ''output/Gravity'') = Inr (0, []) \<and>
   unlink ok_world ''/tmp/tmpq3x8.py'' = None \<and>
   video_path_hybrid ok_world new_enhanced_platform gravity_settings =
     (Inr (Some ''output/Gravity/final_video.mp4''),
      [Subprocess_run [''blender'', ''--version''],
       Named_temporary_file gravity_script,
       Makedirs ''output/Gravity'',
       Subprocess_run (blender_command ''/tmp/tmpq3x8.py'' ''output/Gravity''),
       Unlink ''/tmp/tmpq3x8.py'']) \<and>
   \<not> blender_available no_blender_world \<and>
   video_path_hybrid no_blender_world new_enhanced_platform gravity_settings =
     (Inr (Some ''output/Gravity_nano_banana_video.mp4''),
      Subprocess_run [''blender'', ''--version''] #
      shown_mock_images @
      [Makedirs ''output'',
       Open_write ''output/Gravity_nano_banana_video.mp4'' ''Mock video content''])"
proof -
  have h: "named_temporary_file ok_world gravity_script = Inr ''/tmp/tmpq3x8.py''"
    "makedirs ok_world ''output/Gravity'' = None"
    "subprocess_run ok_world (blender_command ''/tmp/tmpq3x8.py'' ''output/Gravity'') = Inr (0, [])"
    "unlink ok_world ''/tmp/tmpq3x8.py'' = None"
    by (simp_all add: ok_world_def)
  from first_success_wins
    [of ok_world gravity_settings "''/tmp/tmpq3x8.py''" "[]" new_enhanced_platform]
    h ok_world_available
  have a: "video_path_hybrid ok_world new_enhanced_platform gravity_settings =
     (Inr (Some ''output/Gravity/final_video.mp4''),
      [Subprocess_run [''blender'', ''--version''],
       Named_temporary_file gravity_script,
       Makedirs ''output/Gravity'',
       Subprocess_run (blender_command ''/tmp/tmpq3x8.py'' ''output/Gravity''),
       Unlink ''/tmp/tmpq3x8.py''])"
    by (simp add: gravity_settings_simps gravity_output_dir gravity_script_def replace_space_def)
  from first_success_wins
    [of no_blender_world gravity_settings _ _ new_enhanced_platform
        "''output/Gravity_nano_banana_video.mp4''"
        "shown_mock_images @
           [Makedirs ''output'',
            Open_write ''output/Gravity_nano_banana_video.mp4'' ''Mock video content'']"]
    no_blender_world_unavailable no_blender_world_video
  have b: "video_path_hybrid no_blender_world new_enhanced_platform gravity_settings =
     (Inr (Some ''output/Gravity_nano_banana_video.mp4''),
      Subprocess_run [''blender'', ''--version''] #
      shown_mock_images @
      [Makedirs ''output'',
       Open_write ''output/Gravity_nano_banana_video.mp4'' ''Mock video content''])"
    by (simp add: gravity_settings_simps nano_of_new_enhanced)
  from a b h ok_world_available no_blender_world_unavailable show ?thesis
    by simp
qed

text \<open>
  The Hybrid branch announces a fallback to the image-workflow backend when the 3D
  generation fails. A Blender run that exits with a non-zero status is reported by the
  return value \<open>None\<close>, not by an exception, so the \<open>except\<close> clause is not entered: here
  Blender exits with status 1, the image-workflow backend is not called, and the result
  is \<open>None\<close>.
\<close>

lemma nonzero_exit_without_fallback:
  "generation_method gravity_settings = ''Hybrid (Both)'' \<and>
   subprocess_run failing_render_world (blender_command ''/tmp/tmpq3x8.py'' ''output/Gravity'') =
     Inr (1, ''Error: out of memory'') \<and>
   render_video_path failing_render_world new_enhanced_platform gravity_settings =
     (Inr None,
      [Subprocess_run [''blender'', ''--version''],
       Named_temporary_file gravity_script,
       Makedirs ''output/Gravity'',
       Subprocess_run (blender_command ''/tmp/tmpq3x8.py'' ''output/Gravity''),
       Unlink ''/tmp/tmpq3x8.py''])"
proof -
  have r: "subprocess_run failing_render_world
             (blender_command ''/tmp/tmpq3x8.py'' ''output/Gravity'') =
           Inr (1, ''Error: out of memory'')"
    by (simp add: failing_render_world_def ok_world_def blender_command_def)
  have h: "named_temporary_file failing_render_world gravity_script = Inr ''/tmp/tmpq3x8.py''"
    "makedirs failing_render_world ''output/Gravity'' = None"
    "unlink failing_render_world ''/tmp/tmpq3x8.py'' = None"
    by (simp_all add: failing_render_world_def ok_world_def)
  have e: "execute_blender_script failing_render_world gravity_script ''Gravity'' =
     (Inr None,
      [Named_temporary_file gravity_script,
       Makedirs ''output/Gravity'',
       Subprocess_run (blender_command ''/tmp/tmpq3x8.py'' ''output/Gravity''),
       Unlink ''/tmp/tmpq3x8.py''])"
    using execute_blender_script_run
      [of failing_render_world gravity_script "''/tmp/tmpq3x8.py''" "''Gravity''" 1
          "''Error: out of memory''"] h r
    by (simp add: gravity_output_dir replace_space_def)
  show ?thesis
    by (simp add: r render_video_path_def video_path_hybrid_def video_path_3d_def
        gravity_settings_simps generate_video_available [OF failing_render_world_available]
        e gravity_script_def [symmetric])
qed

lemma no_temp_file_blender:
  "execute_blender_script no_temp_file_world gravity_script ''Gravity'' =
     (Inl (OSError ''No space left on device''), [Named_temporary_file gravity_script])"
  by (simp add: execute_blender_script_def no_temp_file_world_def ok_world_def)

lemma full_disk_video:
  "generate_educational_video no_blender_full_disk_world new_platform ''Gravity''
     ''Physics'' ''High School'' =
     (Inl (OSError ''No space left on device''),
      shown_mock_images @
      [Makedirs ''output'',
       Open_write ''output/Gravity_nano_banana_video.mp4'' ''Mock video content''])"
proof -
  have p: "map_of (workflow_templates new_platform) ''physics'' \<noteq> None"
    by (simp add: new_platform_def load_workflow_templates_def)
  have s: "show_images no_blender_full_disk_world (enumerate 0 mock_images) =
             (Inr (), shown_mock_images)"
    by (rule show_mock_images_ok)
      (simp_all add: no_blender_full_disk_world_def no_blender_world_def ok_world_def)
  have n: "nano_banana_video_path ''Gravity'' = ''output/Gravity_nano_banana_video.mp4''"
    by (simp add: nano_banana_video_path_def replace_space_def)
  have d: "dirname ''output/Gravity_nano_banana_video.mp4'' = ''output''"
    by (simp add: dirname_def)
  have m: "makedirs no_blender_full_disk_world ''output'' = None"
    and o: "open_write no_blender_full_disk_world ''output/Gravity_nano_banana_video.mp4''
              ''Mock video content'' = Some (OSError ''No space left on device'')"
    by (simp_all add: no_blender_full_disk_world_def no_blender_world_def ok_world_def)
  show ?thesis
    by (simp add: generate_educational_video_eq [OF p] s create_video_from_images_def
        n d m o Let_def)
qed

lemma full_disk_unavailable: "\<not> blender_available no_blender_full_disk_world"
  by (simp add: blender_available_def no_blender_full_disk_world_def no_blender_world_def
      ok_world_def)

text \<open>
  Claim C2 as stated fails: Blender is not available and the image-workflow backend
  cannot write its file, so both candidates fail. \<open>generate_video\<close> ends with the
  exception of the second backend; it returns no list of attempts, and nothing in the
  outcome says that the 3D backend was tried or why it failed.
\<close>

theorem attempts_not_recorded_counterexample:
  "\<not> blender_available no_blender_full_disk_world \<and>
   generate_video no_blender_full_disk_world new_enhanced_platform ''Gravity'' gravity_script =
     (Inl (OSError ''No space left on device''),
      Subprocess_run [''blender'', ''--version''] #
      shown_mock_images @
      [Makedirs ''output'',
       Open_write ''output/Gravity_nano_banana_video.mp4'' ''Mock video content''])"
  using full_disk_unavailable full_disk_video
  by (simp add: generate_video_def nano_of_new_enhanced)

theorem fallback_on_unavailable_or_exception_witness:
  "\<not> blender_available no_blender_world \<and>
   generate_video no_blender_world new_enhanced_platform ''Gravity'' gravity_script =
     (Inr (Some ''output/Gravity_nano_banana_video.mp4''),
      Subprocess_run [''blender'', ''--version''] #
      shown_mock_images @
      [Makedirs ''output'',
       Open_write ''output/Gravity_nano_banana_video.mp4'' ''Mock video content'']) \<and>
   blender_available no_temp_file_world \<and>
   execute_blender_script no_temp_file_world gravity_script ''Gravity'' =
     (Inl (OSError ''No space left on device''), [Named_temporary_file gravity_script]) \<and>
   video_path_hybrid no_temp_file_world new_enhanced_platform gravity_settings =
     (Inr (Some ''output/Gravity_nano_banana_video.mp4''),
      Subprocess_run [''blender'', ''--version''] #
      [Named_temporary_file gravity_script] @
      shown_mock_images @
      [Makedirs ''output'',
       Open_write ''output/Gravity_nano_banana_video.mp4'' ''Mock video content'']) \<and>
   \<not> blender_available no_blender_full_disk_world \<and>
   generate_video no_blender_full_disk_world new_enhanced_platform ''Gravity'' ''pass'' =
     (Inl (OSError ''No space left on device''),
      Subprocess_run [''blender'', ''--version''] #
      shown_mock_images @
      [Makedirs ''output'',
       Open_write ''output/Gravity_nano_banana_video.mp4'' ''Mock video content''])"
proof -
  let ?nano = "shown_mock_images @
      [Makedirs ''output'',
       Open_write ''output/Gravity_nano_banana_video.mp4'' ''Mock video content'']"
  from fallback_on_unavailable_or_exception
    [where w = no_blender_world and platform = new_enhanced_platform and topic = "''Gravity''"
       and r = "Inr ''output/Gravity_nano_banana_video.mp4''" and log = ?nano
       and script = gravity_script, THEN conjunct1, rule_format]
    no_blender_world_unavailable no_blender_world_video
  have a: "generate_video no_blender_world new_enhanced_platform ''Gravity'' gravity_script =
     (Inr (Some ''output/Gravity_nano_banana_video.mp4''),
      Subprocess_run [''blender'', ''--version''] # ?nano)"
    by (simp add: nano_of_new_enhanced)
  from fallback_on_unavailable_or_exception
    [where w = no_temp_file_world and platform = new_enhanced_platform
       and s = gravity_settings and e = "OSError ''No space left on device''"
       and ?log1.0 = "[Named_temporary_file gravity_script]"
       and ?r2.0 = "Inr ''output/Gravity_nano_banana_video.mp4''" and ?log2.0 = ?nano,
     THEN conjunct2, THEN conjunct1, rule_format]
    no_temp_file_world_available no_temp_file_blender no_temp_file_world_video
  have b: "video_path_hybrid no_temp_file_world new_enhanced_platform gravity_settings =
     (Inr (Some ''output/Gravity_nano_banana_video.mp4''),
      Subprocess_run [''blender'', ''--version''] #
      [Named_temporary_file gravity_script] @ ?nano)"
    by (simp add: nano_of_new_enhanced gravity_settings_simps gravity_script_def [symmetric])
  from fallback_on_unavailable_or_exception
    [where w = no_blender_full_disk_world and platform = new_enhanced_platform
       and topic = "''Gravity''" and e' = "OSError ''No space left on device''"
       and log' = ?nano and script = "''pass''",
     THEN conjunct2, THEN conjunct2, rule_format]
    full_disk_unavailable full_disk_video
  have c: "generate_video no_blender_full_disk_world new_enhanced_platform ''Gravity'' ''pass'' =
     (Inl (OSError ''No space left on device''),
      Subprocess_run [''blender'', ''--version''] # ?nano)"
    by (simp add: nano_of_new_enhanced)
  from a b c no_blender_world_unavailable no_temp_file_world_available
    full_disk_unavailable no_temp_file_blender
  show ?thesis by simp
qed

section \<open>Properties of the supervisor\<close>

lemma monitor_alive_step:
  assumes "running m" and "nano_banana_process m = Some a" and "streamlit_process m = Some b"
  shows "monitor_processes d m (Polls None None # ticks) =
           (case monitor_processes d m ticks of
              (r, m', log) \<Rightarrow> (r, m', one_pass a b @ log))"
  using assms
  by (subst monitor_processes.simps) (simp add: one_pass_def split: prod.splits)

lemma monitor_alive:
  assumes "running m" and "nano_banana_process m = Some a" and "streamlit_process m = Some b"
  shows "monitor_processes d m (replicate n (Polls None None) @ ticks) =
           (case monitor_processes d m ticks of
              (r, m', log) \<Rightarrow> (r, m', concat (replicate n (one_pass a b)) @ log))"
proof (induction n)
  case 0
  show ?case by (simp split: prod.splits)
next
  case (Suc n)
  then show ?case
    by (simp add: monitor_alive_step [OF assms] split: prod.splits)
qed

lemma monitor_used_up:
  "running m \<Longrightarrow> monitor_processes d m [] = (None, m, [])"
  by (subst monitor_processes.simps) simp

lemma monitor_nano_banana_exit:
  assumes "running m" and "nano_banana_process m = Some a"
  shows "monitor_processes d m (Polls (Some c) st # ticks) =
           (Some (Inr ()), m\<lparr>running := False\<rparr>,
            [Poll a, Print ''Nano Banana stopped unexpectedly''])"
  using assms by (subst monitor_processes.simps) simp

lemma monitor_streamlit_exit:
  assumes "running m" and "nano_banana_process m = Some a" and "streamlit_process m = Some b"
  shows "monitor_processes d m (Polls None (Some c) # ticks) =
           (Some (Inr ()), m\<lparr>running := False\<rparr>,
            [Poll a, Poll b, Print ''Streamlit stopped unexpectedly''])"
  using assms by (subst monitor_processes.simps) simp

lemma monitor_sigint:
  assumes "running m"
  shows "monitor_processes Signal_handler m (Sigint # ticks) =
           (Some (Inl (SystemExit 0)), fst (stop_processes m), snd (stop_processes m))"
  using assms by (subst monitor_processes.simps) (simp split: prod.splits)

text \<open>
  Claim C7, as the code has it. With both processes started and the flag set, the loop
  polls Nano Banana and then Streamlit in every pass and sleeps one second between
  passes, for as long as both are alive. At the first pass that finds a process exited
  it prints a warning that names the process, clears the flag and ends: nothing is
  polled after that pass, and the two process objects are left as they were.
\<close>

theorem monitor_ends_at_first_exit:
  assumes "running m" and "nano_banana_process m = Some a" and "streamlit_process m = Some b"
  shows "monitor_processes d m (replicate n (Polls None None)) =
           (None, m, concat (replicate n [Poll a, Poll b, Sleep 1])) \<and>
         monitor_processes d m (replicate n (Polls None None) @ Polls (Some c) st # ticks) =
           (Some (Inr ()), m\<lparr>running := False\<rparr>,
            concat (replicate n [Poll a, Poll b, Sleep 1]) @
            [Poll a, Print ''Nano Banana stopped unexpectedly'']) \<and>
         monitor_processes d m (replicate n (Polls None None) @ Polls None (Some c) # ticks) =
           (Some (Inr ()), m\<lparr>running := False\<rparr>,
            concat (replicate n [Poll a, Poll b, Sleep 1]) @
            [Poll a, Poll b, Print ''Streamlit stopped unexpectedly''])"
proof (intro conjI)
  from monitor_alive [OF assms, of d n "[]"] monitor_used_up [OF assms(1), of d]
  show "monitor_processes d m (replicate n (Polls None None)) =
           (None, m, concat (replicate n [Poll a, Poll b, Sleep 1]))"
    by (simp add: one_pass_def)
next
  from monitor_alive [OF assms, of d n "Polls (Some c) st # ticks"]
    monitor_nano_banana_exit [OF assms(1,2), of d c st ticks]
  show "monitor_processes d m (replicate n (Polls None None) @ Polls (Some c) st # ticks) =
           (Some (Inr ()), m\<lparr>running := False\<rparr>,
            concat (replicate n [Poll a, Poll b, Sleep 1]) @
            [Poll a, Print ''Nano Banana stopped unexpectedly''])"
    by (simp add: one_pass_def)
next
  from monitor_alive [OF assms, of d n "Polls None (Some c) # ticks"]
    monitor_streamlit_exit [OF assms, of d c ticks]
  show "monitor_processes d m (replicate n (Polls None None) @ Polls None (Some c) # ticks) =
           (Some (Inr ()), m\<lparr>running := False\<rparr>,
            concat (replicate n [Poll a, Poll b, Sleep 1]) @
            [Poll a, Poll b, Print ''Streamlit stopped unexpectedly''])"
    by (simp add: one_pass_def)
qed

lemma both_running_simps:
  "running both_running"
  "nano_banana_process both_running = Some 4001"
  "streamlit_process both_running = Some 4002"
  by (simp_all add: both_running_def)

theorem monitor_ends_at_first_exit_witness:
  "running both_running \<and>
   nano_banana_process both_running = Some 4001 \<and>
   streamlit_process both_running = Some 4002 \<and>
   monitor_processes Signal_handler both_running [Polls None None, Polls None None] =
     (None, both_running,
      [Poll 4001, Poll 4002, Sleep 1, Poll 4001, Poll 4002, Sleep 1]) \<and>
   monitor_processes Signal_handler both_running
     [Polls None None, Polls None None, Polls (Some 1) None, Polls None (Some 1)] =
     (Some (Inr ()), both_running\<lparr>running := False\<rparr>,
      [Poll 4001, Poll 4002, Sleep 1, Poll 4001, Poll 4002, Sleep 1,
       Poll 4001, Print ''Nano Banana stopped unexpectedly'']) \<and>
   monitor_processes Signal_handler both_running
     [Polls None None, Polls None None, Polls None (Some 1)] =
     (Some (Inr ()), both_running\<lparr>running := False\<rparr>,
      [Poll 4001, Poll 4002, Sleep 1, Poll 4001, Poll 4002, Sleep 1,
       Poll 4001, Poll 4002, Print ''Streamlit stopped unexpectedly''])"
proof -
  from monitor_ends_at_first_exit
      [OF both_running_simps, of Signal_handler 2 1 None "[Polls None (Some 1)]"]
    monitor_ends_at_first_exit
      [OF both_running_simps, of Signal_handler 2 1 None "[]"]
  show ?thesis
    by (simp add: numeral_2_eq_2 both_running_simps)
qed

text \<open>
  Claim C7 as stated fails: Nano Banana exits before the first pass and Streamlit before
  the second. The loop ends after the first pass; the exit of Streamlit is neither
  polled nor reported, and no process is marked as crashed.
\<close>

theorem monitor_counterexample:
  "monitor_processes Signal_handler both_running [Polls (Some 1) None, Polls None (Some 1)] =
     (Some (Inr ()),
      \<lparr>nano_banana_process = Some 4001, streamlit_process = Some 4002, running = False\<rparr>,
      [Poll 4001, Print ''Nano Banana stopped unexpectedly''])"
  using monitor_nano_banana_exit [of both_running 4001 Signal_handler 1 None "[Polls None (Some 1)]"]
  by (simp add: both_running_def)

lemma start_nano_banana_ok:
  assumes "path_exists h (nano_banana_path h)" and "chdir h (nano_banana_path h) = None"
    and "popen h [''npm'', ''run'', ''dev''] = Inr a" and "poll_after_start h a = None"
  shows "start_nano_banana h m =
           (True, m\<lparr>nano_banana_process := Some a\<rparr>,
            nano_banana_started (nano_banana_path h) a)"
  using assms by (simp add: start_nano_banana_def nano_banana_started_def)

lemma start_streamlit_ok:
  assumes "popen h streamlit_command = Inr b" and "poll_after_start h b = None"
  shows "start_streamlit h m =
           (True, m\<lparr>streamlit_process := Some b\<rparr>, streamlit_started b)"
  using assms by (simp add: start_streamlit_def streamlit_started_def)

lemma stop_both:
  assumes "nano_banana_process m = Some a" and "streamlit_process m = Some b"
  shows "snd (stop_processes m) = both_stopped a b"
  using assms by (simp add: stop_processes_def both_stopped_def)

lemma check_tools_log:
  "check_tools h = (Inr True, log0) \<Longrightarrow> log0 = tools_checked"
  by (auto simp: check_tools_def tools_checked_def split: sum.splits bool.splits)

text \<open>
  Claim C9, as the code has it, for a host on which the check of the tools passes. When
  both processes start and stay alive until SIGINT arrives, the entry point prints the
  address of each, monitors, calls \<open>stop_processes\<close> from the signal handler and exits
  with status 0. When Nano Banana does not start, or Nano Banana starts and Streamlit
  does not, it prints the reason (and stops what it has started, in the second case) and
  returns: the exit status is 0 in these cases too.
\<close>

theorem run_exit_status:
  assumes tools: "check_tools h = (Inr True, log0)"
  shows
    "(path_exists h (nano_banana_path h) \<and> chdir h (nano_banana_path h) = None \<and>
      popen h [''npm'', ''run'', ''dev''] = Inr a \<and> poll_after_start h a = None \<and>
      popen h streamlit_command = Inr b \<and> poll_after_start h b = None \<longrightarrow>
        main h (replicate n (Polls None None) @ Sigint # ticks) =
          (Some 0,
           banner @ tools_checked @
           nano_banana_started (nano_banana_path h) a @ streamlit_started b @
           announcement @ [Signal_sigint] @
           concat (replicate n [Poll a, Poll b, Sleep 1]) @
           both_stopped a b)) \<and>
     (start_nano_banana h new_manager = (False, m1, log1) \<longrightarrow>
        main h ticks =
          (Some 0,
           banner @ tools_checked @ log1 @ [Print ''Cannot start without Nano Banana''])) \<and>
     (start_nano_banana h new_manager = (True, m1, log1) \<and>
      start_streamlit h m1 = (False, m2, log2) \<longrightarrow>
        main h ticks =
          (Some 0,
           banner @ tools_checked @ log1 @ log2 @
           [Print ''Cannot start without Streamlit''] @ snd (stop_processes m2)))"
proof (intro conjI impI)
  note l0 = check_tools_log [OF tools]
  assume a: "path_exists h (nano_banana_path h) \<and> chdir h (nano_banana_path h) = None \<and>
      popen h [''npm'', ''run'', ''dev''] = Inr a \<and> poll_after_start h a = None \<and>
      popen h streamlit_command = Inr b \<and> poll_after_start h b = None"
  let ?m1 = "new_manager\<lparr>nano_banana_process := Some a\<rparr>"
  let ?m2 = "?m1\<lparr>streamlit_process := Some b\<rparr>"
  let ?m3 = "?m2\<lparr>running := True\<rparr>"
  from a have s1: "start_nano_banana h new_manager =
      (True, ?m1, nano_banana_started (nano_banana_path h) a)"
    by (simp add: start_nano_banana_ok)
  from a have s2: "start_streamlit h ?m1 = (True, ?m2, streamlit_started b)"
    by (simp add: start_streamlit_ok)
  have r: "running ?m3" and pa: "nano_banana_process ?m3 = Some a"
    and pb: "streamlit_process ?m3 = Some b"
    by simp_all
  have mon: "monitor_processes Signal_handler ?m3 (replicate n (Polls None None) @ Sigint # ticks) =
      (Some (Inl (SystemExit 0)), fst (stop_processes ?m3),
       concat (replicate n (one_pass a b)) @ both_stopped a b)"
    by (simp add: monitor_alive [OF r pa pb] monitor_sigint [OF r] stop_both [OF pa pb])
  show "main h (replicate n (Polls None None) @ Sigint # ticks) =
          (Some 0,
           banner @ tools_checked @
           nano_banana_started (nano_banana_path h) a @ streamlit_started b @
           announcement @ [Signal_sigint] @
           concat (replicate n [Poll a, Poll b, Sleep 1]) @
           both_stopped a b)"
    by (simp add: main_def run_def tools l0 s1 s2 mon exit_status_def one_pass_def)
next
  note l0 = check_tools_log [OF tools]
  assume "start_nano_banana h new_manager = (False, m1, log1)"
  then show "main h ticks =
          (Some 0,
           banner @ tools_checked @ log1 @ [Print ''Cannot start without Nano Banana''])"
    using tools by (simp add: main_def run_def l0 exit_status_def)
next
  note l0 = check_tools_log [OF tools]
  assume "start_nano_banana h new_manager = (True, m1, log1) \<and>
      start_streamlit h m1 = (False, m2, log2)"
  then show "main h ticks =
          (Some 0,
           banner @ tools_checked @ log1 @ log2 @
           [Print ''Cannot start without Streamlit''] @ snd (stop_processes m2))"
    using tools by (simp add: main_def run_def l0 exit_status_def split: prod.splits)
qed

lemma check_tools_good:
  "tool_version h = (\<lambda>cmd. Inr 0) \<Longrightarrow> check_tools h = (Inr True, tools_checked)"
  by (simp add: check_tools_def check_tool_def tools_checked_def)

lemma good_host_tools: "check_tools good_host = (Inr True, tools_checked)"
  by (rule check_tools_good) (simp add: good_host_def)

lemma dying_nano_banana_tools: "check_tools dying_nano_banana_host = (Inr True, tools_checked)"
  by (rule check_tools_good) (simp add: dying_nano_banana_host_def good_host_def)

lemma dying_streamlit_tools: "check_tools dying_streamlit_host = (Inr True, tools_checked)"
  by (rule check_tools_good) (simp add: dying_streamlit_host_def good_host_def)

lemma dying_nano_banana_start:
  "start_nano_banana dying_nano_banana_host new_manager =
     (False, new_manager\<lparr>nano_banana_process := Some 4001\<rparr>,
      [Print ''Starting Nano Banana...'',
       Chdir ''/srv/ai-apps-collection/nano-banana-image-workflow-nextjs'',
       Popen [''npm'', ''run'', ''dev''], Sleep 3, Poll 4001,
       Print ''Failed to start Nano Banana''])"
  by (simp add: start_nano_banana_def dying_nano_banana_host_def good_host_def)

lemma dying_streamlit_start_nano_banana:
  "start_nano_banana dying_streamlit_host new_manager =
     (True, new_manager\<lparr>nano_banana_process := Some 4001\<rparr>,
      nano_banana_started ''/srv/ai-apps-collection/nano-banana-image-workflow-nextjs'' 4001)"
  by (simp add: start_nano_banana_def dying_streamlit_host_def good_host_def
      nano_banana_started_def)

lemma dying_streamlit_start:
  "start_streamlit dying_streamlit_host (new_manager\<lparr>nano_banana_process := Some 4001\<rparr>) =
     (False, new_manager\<lparr>nano_banana_process := Some 4001, streamlit_process := Some 4002\<rparr>,
      [Print ''Starting 3D Video Educational AI Platform...'',
       Popen streamlit_command, Sleep 3, Poll 4002,
       Print ''Failed to start Streamlit''])"
  by (simp add: start_streamlit_def dying_streamlit_host_def good_host_def
      streamlit_command_def)

text \<open>
  Claim C9 as stated fails: Nano Banana exits with status 1 during the three seconds
  after its start, and the entry point ends with the exit status 0.
\<close>

theorem failed_start_counterexample:
  "poll_after_start dying_nano_banana_host 4001 = Some 1 \<and>
   main dying_nano_banana_host [] =
     (Some 0,
      banner @ tools_checked @
      [Print ''Starting Nano Banana...'',
       Chdir ''/srv/ai-apps-collection/nano-banana-image-workflow-nextjs'',
       Popen [''npm'', ''run'', ''dev''], Sleep 3, Poll 4001,
       Print ''Failed to start Nano Banana'',
       Print ''Cannot start without Nano Banana''])"
proof -
  have "poll_after_start dying_nano_banana_host 4001 = Some 1"
    by (simp add: dying_nano_banana_host_def good_host_def)
  then show ?thesis
    by (simp add: main_def run_def dying_nano_banana_tools dying_nano_banana_start
        exit_status_def)
qed

theorem run_exit_status_witness:
  "check_tools good_host = (Inr True, tools_checked) \<and>
   main good_host [Polls None None, Polls None None, Sigint] =
     (Some 0,
      banner @ tools_checked @
      nano_banana_started ''/srv/ai-apps-collection/nano-banana-image-workflow-nextjs'' 4001 @
      streamlit_started 4002 @
      announcement @ [Signal_sigint] @
      [Poll 4001, Poll 4002, Sleep 1, Poll 4001, Poll 4002, Sleep 1] @
      both_stopped 4001 4002) \<and>
   check_tools dying_nano_banana_host = (Inr True, tools_checked) \<and>
   main dying_nano_banana_host [Polls None None, Sigint] =
     (Some 0,
      banner @ tools_checked @
      [Print ''Starting Nano Banana...'',
       Chdir ''/srv/ai-apps-collection/nano-banana-image-workflow-nextjs'',
       Popen [''npm'', ''run'', ''dev''], Sleep 3, Poll 4001,
       Print ''Failed to start Nano Banana''] @
      [Print ''Cannot start without Nano Banana'']) \<and>
   check_tools dying_streamlit_host = (Inr True, tools_checked) \<and>
   main dying_streamlit_host [Polls None None, Sigint] =
     (Some 0,
      banner @ tools_checked @
      nano_banana_started ''/srv/ai-apps-collection/nano-banana-image-workflow-nextjs'' 4001 @
      [Print ''Starting 3D Video Educational AI Platform...'',
       Popen streamlit_command, Sleep 3, Poll 4002,
       Print ''Failed to start Streamlit''] @
      [Print ''Cannot start without Streamlit''] @
      both_stopped 4001 4002)"
proof -
  have g: "path_exists good_host (nano_banana_path good_host) \<and>
      chdir good_host (nano_banana_path good_host) = None \<and>
      popen good_host [''npm'', ''run'', ''dev''] = Inr 4001 \<and>
      poll_after_start good_host 4001 = None \<and>
      popen good_host streamlit_command = Inr 4002 \<and>
      poll_after_start good_host 4002 = None"
    by (simp add: good_host_def streamlit_command_def)
  have p: "nano_banana_path good_host =
             ''/srv/ai-apps-collection/nano-banana-image-workflow-nextjs''"
    by (simp add: good_host_def)
  from run_exit_status [OF good_host_tools, where a = 4001 and b = 4002 and n = 2
      and ticks = "[]"] g
  have a: "main good_host [Polls None None, Polls None None, Sigint] =
     (Some 0,
      banner @ tools_checked @
      nano_banana_started ''/srv/ai-apps-collection/nano-banana-image-workflow-nextjs'' 4001 @
      streamlit_started 4002 @
      announcement @ [Signal_sigint] @
      [Poll 4001, Poll 4002, Sleep 1, Poll 4001, Poll 4002, Sleep 1] @
      both_stopped 4001 4002)"
    by (simp add: p numeral_2_eq_2)
  from run_exit_status [OF dying_nano_banana_tools, where ticks = "[Polls None None, Sigint]"
      and ?m1.0 = "new_manager\<lparr>nano_banana_process := Some 4001\<rparr>"
      and ?log1.0 = "[Print ''Starting Nano Banana...'',
       Chdir ''/srv/ai-apps-collection/nano-banana-image-workflow-nextjs'',
       Popen [''npm'', ''run'', ''dev''], Sleep 3, Poll 4001,
       Print ''Failed to start Nano Banana'']"]
    dying_nano_banana_start
  have b: "main dying_nano_banana_host [Polls None None, Sigint] =
     (Some 0,
      banner @ tools_checked @
      [Print ''Starting Nano Banana...'',
       Chdir ''/srv/ai-apps-collection/nano-banana-image-workflow-nextjs'',
       Popen [''npm'', ''run'', ''dev''], Sleep 3, Poll 4001,
       Print ''Failed to start Nano Banana''] @
      [Print ''Cannot start without Nano Banana''])"
    by simp
  have st: "snd (stop_processes
              (new_manager\<lparr>nano_banana_process := Some 4001, streamlit_process := Some 4002\<rparr>))
            = both_stopped 4001 4002"
    by (rule stop_both) simp_all
  from run_exit_status [OF dying_streamlit_tools, where ticks = "[Polls None None, Sigint]"
      and ?m1.0 = "new_manager\<lparr>nano_banana_process := Some 4001\<rparr>"
      and ?log1.0 = "nano_banana_started
                       ''/srv/ai-apps-collection/nano-banana-image-workflow-nextjs'' 4001"
      and ?m2.0 = "new_manager\<lparr>nano_banana_process := Some 4001,
                                 streamlit_process := Some 4002\<rparr>"
      and ?log2.0 = "[Print ''Starting 3D Video Educational AI Platform...'',
                      Popen streamlit_command, Sleep 3, Poll 4002,
                      Print ''Failed to start Streamlit'']"]
    dying_streamlit_start_nano_banana dying_streamlit_start
  have c: "main dying_streamlit_host [Polls None None, Sigint] =
     (Some 0,
      banner @ tools_checked @
      nano_banana_started ''/srv/ai-apps-collection/nano-banana-image-workflow-nextjs'' 4001 @
      [Print ''Starting 3D Video Educational AI Platform...'',
       Popen streamlit_command, Sleep 3, Poll 4002,
       Print ''Failed to start Streamlit''] @
      [Print ''Cannot start without Streamlit''] @
      both_stopped 4001 4002)"
    by (simp add: st)
  from a b c good_host_tools dying_nano_banana_tools dying_streamlit_tools
  show ?thesis by simp
qed

lemma popen_terminate_exited:
  "table p \<noteq> Alive \<Longrightarrow> popen_terminate os_kill p table = (None, table)"
  by (cases "table p") (simp_all add: popen_terminate_def)

lemma popen_terminate_again:
  "popen_terminate os_kill p table = (None, table') \<Longrightarrow>
   popen_terminate os_kill p table' = (None, table')"
  by (auto simp: popen_terminate_def split: child.splits sum.splits)

lemma popen_terminate_settled:
  assumes "popen_terminate os_kill p table = (None, table)"
    and "popen_terminate os_kill q table = (None, table')"
  shows "popen_terminate os_kill p table' = (None, table')"
proof (cases "p = q")
  case True
  with assms(2) show ?thesis by (simp add: popen_terminate_again)
next
  case False
  with assms show ?thesis
    by (auto simp: popen_terminate_def fun_upd_twist split: child.splits sum.splits)
qed

lemma terminate_if_set_stopped:
  "stopped table process \<Longrightarrow>
   terminate_if_set os_kill process message table =
     (None, table, case process of None \<Rightarrow> [] | Some p \<Rightarrow> [Terminate p, Print message])"
  by (cases process) (simp_all add: terminate_if_set_def stopped_def popen_terminate_exited)

lemma terminate_if_set_log:
  "terminate_if_set os_kill process message table = (None, table', log) \<Longrightarrow>
   log = (case process of None \<Rightarrow> [] | Some p \<Rightarrow> [Terminate p, Print message])"
  by (cases process) (auto simp: terminate_if_set_def split: prod.splits option.splits)

lemma terminate_if_set_again:
  "terminate_if_set os_kill process message table = (None, table', log) \<Longrightarrow>
   terminate_if_set os_kill process message table' = (None, table', log)"
  by (cases process)
    (auto simp: terminate_if_set_def popen_terminate_again split: prod.splits option.splits)

lemma terminate_if_set_settled:
  assumes "terminate_if_set os_kill process message table = (None, table, log)"
    and "terminate_if_set os_kill process' message' table = (None, table', log')"
  shows "terminate_if_set os_kill process message table' = (None, table', log)"
proof (cases process)
  case None
  with assms(1) show ?thesis by (simp add: terminate_if_set_def)
next
  case p: (Some p)
  show ?thesis
  proof (cases process')
    case None
    with assms(2) have "table' = table"
      by (simp add: terminate_if_set_def)
    with assms(1) show ?thesis by simp
  next
    case (Some q)
    from assms(1) p have 1: "popen_terminate os_kill p table = (None, table)"
      and l: "log = [Terminate p, Print message]"
      by (auto simp: terminate_if_set_def split: prod.splits option.splits)
    from assms(2) Some have 2: "popen_terminate os_kill q table = (None, table')"
      by (auto simp: terminate_if_set_def split: prod.splits option.splits)
    from popen_terminate_settled [OF 1 2] p l show ?thesis
      by (simp add: terminate_if_set_def)
  qed
qed

lemma terminate_if_set_unset:
  "terminate_if_set os_kill None message table = (None, table', log) \<Longrightarrow> table' = table"
  by (simp add: terminate_if_set_def)

lemma terminate_if_set_set:
  "terminate_if_set os_kill (Some q) message table = (None, table', log) \<Longrightarrow>
   popen_terminate os_kill q table = (None, table')"
  by (auto simp: terminate_if_set_def split: prod.splits option.splits)

lemma popen_terminate_signalled:
  "popen_terminate os_kill q table = (None, table') \<Longrightarrow> signalled os_kill table table' q"
  by (auto simp: popen_terminate_def signalled_def split: child.splits sum.splits)

lemma signalled_kept:
  "signalled os_kill table table1 p \<Longrightarrow>
   popen_terminate os_kill q table1 = (None, table') \<Longrightarrow>
   signalled os_kill table table' p"
  by (auto simp: popen_terminate_def signalled_def split: child.splits sum.splits if_splits)

lemma signalled_later:
  "popen_terminate os_kill q table = (None, table1) \<Longrightarrow>
   popen_terminate os_kill p table1 = (None, table') \<Longrightarrow>
   signalled os_kill table table' p"
  by (auto simp: popen_terminate_def signalled_def split: child.splits sum.splits if_splits)

lemma stop_processes_in_cases:
  assumes "stop_processes_in os_kill m table = (Inr m', table', log)"
  obtains table1 log1 log2 where
    "terminate_if_set os_kill (nano_banana_process m) ''Nano Banana stopped'' table
       = (None, table1, log1)"
    "terminate_if_set os_kill (streamlit_process m) ''Streamlit stopped'' table1
       = (None, table', log2)"
    "m' = m\<lparr>running := False\<rparr>"
    "log = [Print ''\<newline>Stopping processes...''] @ log1 @ log2"
  using assms
  by (auto simp: stop_processes_in_def split: prod.splits option.splits)

text \<open>
  Claim C8. \<open>stop_processes\<close> is idempotent. When no supervised process is running (each
  process object is unset, or its child has exited), the call raises nothing, even on a
  kernel that would refuse every signal; it leaves the table of the children as it is,
  so every supervised process is still stopped afterwards; and it performs the actions
  of \<open>stop_processes\<close>. Whenever a call returns, a second call from the state it has
  left returns too, performs the same actions and leaves that state unchanged; and
  every supervised child that was alive has been sent the signal (its state is the
  answer of the kernel), while every child that had exited is as it was.
\<close>

theorem stop_processes_in_idempotent:
  "(all_stopped m table \<longrightarrow>
      stop_processes_in os_kill m table =
        (Inr (m\<lparr>running := False\<rparr>), table, snd (stop_processes m)) \<and>
      all_stopped (m\<lparr>running := False\<rparr>) table) \<and>
   (stop_processes_in os_kill m table = (Inr m', table', log) \<longrightarrow>
      stop_processes_in os_kill m' table' = (Inr m', table', log) \<and>
      m' = fst (stop_processes m) \<and> log = snd (stop_processes m)) \<and>
   (stop_processes_in os_kill m table = (Inr m', table', log) \<and>
    (nano_banana_process m = Some p \<or> streamlit_process m = Some p) \<longrightarrow>
      signalled os_kill table table' p)"
proof (intro conjI impI)
  assume a: "all_stopped m table"
  then show "stop_processes_in os_kill m table =
        (Inr (m\<lparr>running := False\<rparr>), table, snd (stop_processes m))"
    by (simp add: stop_processes_in_def all_stopped_def terminate_if_set_stopped
        stop_processes_def)
  from a show "all_stopped (m\<lparr>running := False\<rparr>) table"
    by (simp add: all_stopped_def)
next
  assume s: "stop_processes_in os_kill m table = (Inr m', table', log)"
  from s obtain table1 log1 log2 where
    n: "terminate_if_set os_kill (nano_banana_process m) ''Nano Banana stopped'' table
          = (None, table1, log1)" and
    t: "terminate_if_set os_kill (streamlit_process m) ''Streamlit stopped'' table1
          = (None, table', log2)" and
    m': "m' = m\<lparr>running := False\<rparr>" and
    l: "log = [Print ''\<newline>Stopping processes...''] @ log1 @ log2"
    by (rule stop_processes_in_cases)
  from terminate_if_set_settled [OF terminate_if_set_again [OF n] t]
  have n': "terminate_if_set os_kill (nano_banana_process m) ''Nano Banana stopped'' table'
          = (None, table', log1)" .
  from terminate_if_set_again [OF t]
  have t': "terminate_if_set os_kill (streamlit_process m) ''Streamlit stopped'' table'
          = (None, table', log2)" .
  from n' t' m' l show "stop_processes_in os_kill m' table' = (Inr m', table', log)"
    by (simp add: stop_processes_in_def)
  from m' show "m' = fst (stop_processes m)"
    by (simp add: stop_processes_def)
  from terminate_if_set_log [OF n] terminate_if_set_log [OF t] l
  show "log = snd (stop_processes m)"
    by (simp add: stop_processes_def)
next
  assume a: "stop_processes_in os_kill m table = (Inr m', table', log) \<and>
    (nano_banana_process m = Some p \<or> streamlit_process m = Some p)"
  then obtain table1 log1 log2 where
    n: "terminate_if_set os_kill (nano_banana_process m) ''Nano Banana stopped'' table
          = (None, table1, log1)" and
    t: "terminate_if_set os_kill (streamlit_process m) ''Streamlit stopped'' table1
          = (None, table', log2)"
    by (auto elim: stop_processes_in_cases)
  from a consider "nano_banana_process m = Some p" | "streamlit_process m = Some p"
    by blast
  then show "signalled os_kill table table' p"
  proof cases
    case 1
    with n have "popen_terminate os_kill p table = (None, table1)"
      by (simp add: terminate_if_set_set)
    then have s1: "signalled os_kill table table1 p"
      by (rule popen_terminate_signalled)
    show ?thesis
    proof (cases "streamlit_process m")
      case None
      with t have "table' = table1" by (simp add: terminate_if_set_unset)
      with s1 show ?thesis by simp
    next
      case (Some q)
      with t have "popen_terminate os_kill q table1 = (None, table')"
        by (simp add: terminate_if_set_set)
      with s1 show ?thesis by (rule signalled_kept)
    qed
  next
    case 2
    with t have q: "popen_terminate os_kill p table1 = (None, table')"
      by (simp add: terminate_if_set_set)
    show ?thesis
    proof (cases "nano_banana_process m")
      case None
      with n have "table1 = table" by (simp add: terminate_if_set_unset)
      with q show ?thesis by (simp add: popen_terminate_signalled)
    next
      case (Some q')
      with n have "popen_terminate os_kill q' table = (None, table1)"
        by (simp add: terminate_if_set_set)
      then show ?thesis using q by (rule signalled_later)
    qed
  qed
qed

lemma stop_exited_children:
  "stop_processes_in refusing_kill both_running all_exited =
     (Inr (both_running\<lparr>running := False\<rparr>), all_exited, both_stopped 4001 4002)"
  by (simp add: stop_processes_in_def terminate_if_set_def popen_terminate_def
      both_running_def all_exited_def both_stopped_def)

lemma stop_alive_children:
  "stop_processes_in obeyed_kill both_running all_alive =
     (Inr (both_running\<lparr>running := False\<rparr>),
      all_alive(4001 := Exited (- 15), 4002 := Exited (- 15)),
      both_stopped 4001 4002)"
  by (simp add: stop_processes_in_def terminate_if_set_def popen_terminate_def
      both_running_def all_alive_def obeyed_kill_def both_stopped_def)

text \<open>
  The call can raise: with both children alive and a kernel that refuses the signal, the
  exception of the first \<open>terminate()\<close> leaves \<open>stop_processes\<close>.
\<close>

lemma stop_refused:
  "stop_processes_in refusing_kill both_running all_alive =
     (Inl (OSError ''Operation not permitted''), all_alive,
      [Print ''\<newline>Stopping processes...'', Terminate 4001])"
  by (simp add: stop_processes_in_def terminate_if_set_def popen_terminate_def
      both_running_def all_alive_def refusing_kill_def)

theorem stop_processes_in_idempotent_witness:
  "all_stopped both_running all_exited \<and>
   stop_processes_in refusing_kill both_running all_exited =
     (Inr (both_running\<lparr>running := False\<rparr>), all_exited, both_stopped 4001 4002) \<and>
   all_stopped (both_running\<lparr>running := False\<rparr>) all_exited \<and>
   all_stopped new_manager all_alive \<and>
   stop_processes_in refusing_kill new_manager all_alive =
     (Inr new_manager, all_alive, [Print ''\<newline>Stopping processes...'']) \<and>
   stop_processes_in obeyed_kill both_running all_alive =
     (Inr (both_running\<lparr>running := False\<rparr>),
      all_alive(4001 := Exited (- 15), 4002 := Exited (- 15)),
      both_stopped 4001 4002) \<and>
   stop_processes_in obeyed_kill (both_running\<lparr>running := False\<rparr>)
       (all_alive(4001 := Exited (- 15), 4002 := Exited (- 15))) =
     (Inr (both_running\<lparr>running := False\<rparr>),
      all_alive(4001 := Exited (- 15), 4002 := Exited (- 15)),
      both_stopped 4001 4002) \<and>
   signalled obeyed_kill all_alive
     (all_alive(4001 := Exited (- 15), 4002 := Exited (- 15))) 4002"
proof -
  have q1: "all_stopped both_running all_exited"
    by (simp add: all_stopped_def stopped_def both_running_def all_exited_def)
  have q2: "all_stopped new_manager all_alive"
    by (simp add: all_stopped_def stopped_def new_manager_def)
  have b: "snd (stop_processes both_running) = both_stopped 4001 4002"
    by (simp add: stop_processes_def both_running_def both_stopped_def)
  have n: "snd (stop_processes new_manager) = [Print ''\<newline>Stopping processes...'']"
    "new_manager\<lparr>running := False\<rparr> = new_manager"
    by (simp_all add: stop_processes_def new_manager_def)
  from stop_processes_in_idempotent
      [where m = both_running and table = all_exited and os_kill = refusing_kill,
       THEN conjunct1, rule_format, OF q1]
  have 1: "stop_processes_in refusing_kill both_running all_exited =
     (Inr (both_running\<lparr>running := False\<rparr>), all_exited, both_stopped 4001 4002) \<and>
     all_stopped (both_running\<lparr>running := False\<rparr>) all_exited"
    by (simp only: b)
  from stop_processes_in_idempotent
      [where m = new_manager and table = all_alive and os_kill = refusing_kill,
       THEN conjunct1, rule_format, OF q2]
  have 2: "stop_processes_in refusing_kill new_manager all_alive =
     (Inr new_manager, all_alive, [Print ''\<newline>Stopping processes...''])"
    by (simp only: n)
  from stop_processes_in_idempotent
      [where m = both_running and table = all_alive and os_kill = obeyed_kill,
       THEN conjunct2, THEN conjunct1, rule_format, OF stop_alive_children]
  have 3: "stop_processes_in obeyed_kill (both_running\<lparr>running := False\<rparr>)
       (all_alive(4001 := Exited (- 15), 4002 := Exited (- 15))) =
     (Inr (both_running\<lparr>running := False\<rparr>),
      all_alive(4001 := Exited (- 15), 4002 := Exited (- 15)),
      both_stopped 4001 4002)"
    by (rule conjunct1)
  have h: "stop_processes_in obeyed_kill both_running all_alive =
     (Inr (both_running\<lparr>running := False\<rparr>),
      all_alive(4001 := Exited (- 15), 4002 := Exited (- 15)),
      both_stopped 4001 4002) \<and>
     (nano_banana_process both_running = Some 4002 \<or>
      streamlit_process both_running = Some 4002)"
    using stop_alive_children by (simp add: both_running_def)
  from stop_processes_in_idempotent
      [where m = both_running and table = all_alive and os_kill = obeyed_kill,
       THEN conjunct2, THEN conjunct2, rule_format, OF h]
  have 4: "signalled obeyed_kill all_alive
     (all_alive(4001 := Exited (- 15), 4002 := Exited (- 15))) 4002" .
  from q1 q2 1 2 3 4 stop_alive_children show ?thesis
    by (intro conjI) (erule conjE | assumption)+
qed

end
